theory Spec2Isabelle
  imports Complex_Main
begin

section \<open>The profile NetCDF script of gncutils\<close>

text \<open>
  A shallow embedding of \<^verbatim>\<open>scripts/dba_to_ngdac_profile_nc.py\<close>, function \<^verbatim>\<open>main\<close>.
  The script is read with the semantics of Python 3 (it is written for it:
  \<^verbatim>\<open>list(range(...))\<close> in line 216), POSIX paths and the documented behaviour of the
  standard library. The functions of the package that the script calls
  (the reader, the segmenter, the physics, the NetCDF writer) are parameters of the
  model, collected in the record \<open>env\<close>.

  Floating point numbers are exact reals extended with NaN: rounding is not modelled.
\<close>

subsection \<open>Numbers\<close>

datatype pyfloat = NaN | Fin real

fun isnan :: "pyfloat \<Rightarrow> bool" where
  "isnan NaN = True"
| "isnan (Fin x) = False"

text \<open>Comparisons with NaN are false (\<^verbatim>\<open>ts >= p0\<close>, \<^verbatim>\<open>ts <= p1\<close>, line 153).\<close>

fun fge :: "pyfloat \<Rightarrow> pyfloat \<Rightarrow> bool" where
  "fge (Fin a) (Fin b) = (b \<le> a)"
| "fge _ _ = False"

fun fle :: "pyfloat \<Rightarrow> pyfloat \<Rightarrow> bool" where
  "fle (Fin a) (Fin b) = (a \<le> b)"
| "fle _ _ = False"

fun finite_vals :: "pyfloat list \<Rightarrow> real list" where
  "finite_vals [] = []"
| "finite_vals (NaN # xs) = finite_vals xs"
| "finite_vals (Fin x # xs) = x # finite_vals xs"

text \<open>\<^verbatim>\<open>np.nanmean\<close>: the mean of the values that are not NaN, NaN when there is none.\<close>

definition nanmean :: "pyfloat list \<Rightarrow> pyfloat" where
  "nanmean xs =
     (let vs = finite_vals xs
      in if vs = [] then NaN else Fin (sum_list vs / real (length vs)))"

text \<open>\<^verbatim>\<open>int(x)\<close> on a float truncates towards zero.\<close>

definition py_int :: "real \<Rightarrow> int" where
  "py_int x = (if 0 \<le> x then \<lfloor>x\<rfloor> else \<lceil>x\<rceil>)"

subsection \<open>Exceptions\<close>

datatype exn = TypeError | ValueError | IndexError | OSError | LibraryError

subsection \<open>Strings and paths\<close>

text \<open>\<^verbatim>\<open>os.path.join\<close> and \<^verbatim>\<open>os.path.basename\<close> of posixpath, for two components.\<close>

definition path_join :: "string \<Rightarrow> string \<Rightarrow> string" where
  "path_join a b =
     (if b \<noteq> [] \<and> hd b = CHR ''/'' then b
      else if a = [] \<or> last a = CHR ''/'' then a @ b
      else a @ ''/'' @ b)"

definition basename :: "string \<Rightarrow> string" where
  "basename p = rev (takeWhile (\<lambda>c. c \<noteq> CHR ''/'') (rev p))"

text \<open>A path lies under a directory when it starts with the directory and a slash.\<close>

definition is_under :: "string \<Rightarrow> string \<Rightarrow> bool" where
  "is_under d p = (take (Suc (length d)) p = d @ ''/'')"

subsection \<open>Dates\<close>

text \<open>
  \<^verbatim>\<open>datetime.datetime.utcfromtimestamp(t)\<close> rounds \<open>t\<close> to the nearest microsecond
  (ties to even) and converts the seconds to a proleptic Gregorian date; it raises
  when the year is outside 1..9999. \<^verbatim>\<open>strftime('%Y%m%dT%H%M%SZ')\<close> prints the fields
  zero padded.
\<close>

record datetime =
  dt_year :: int
  dt_month :: int
  dt_day :: int
  dt_hour :: int
  dt_minute :: int
  dt_second :: int

definition round_half_even :: "real \<Rightarrow> int" where
  "round_half_even x =
     (let f = \<lfloor>x\<rfloor>; d = x - of_int f
      in if d < 1 / 2 then f
         else if 1 / 2 < d then f + 1
         else if even f then f else f + 1)"

text \<open>Days since 1970-01-01 to (year, month, day); \<open>doe\<close> is the day of the
  400-year era, \<open>yoe\<close> the year of the era, \<open>doy\<close> the day of the year from 1 March.\<close>

definition year_of_era :: "int \<Rightarrow> int" where
  "year_of_era doe = (doe - doe div 1460 + doe div 36524 - doe div 146096) div 365"

definition day_of_year :: "int \<Rightarrow> int \<Rightarrow> int" where
  "day_of_year doe yoe = doe - (365 * yoe + yoe div 4 - yoe div 100)"

definition civil_of :: "int \<Rightarrow> int \<Rightarrow> int \<Rightarrow> int \<times> int \<times> int" where
  "civil_of y doy mp =
     (if mp < 10 then (y, mp + 3, doy - (153 * mp + 2) div 5 + 1)
      else (y + 1, mp - 9, doy - (153 * mp + 2) div 5 + 1))"

definition civil_from_era :: "int \<Rightarrow> int \<Rightarrow> int \<Rightarrow> int \<times> int \<times> int" where
  "civil_from_era era doe yoe =
     civil_of (yoe + era * 400) (day_of_year doe yoe) ((5 * day_of_year doe yoe + 2) div 153)"

definition civil_from_days :: "int \<Rightarrow> int \<times> int \<times> int" where
  "civil_from_days days =
     civil_from_era ((days + 719468) div 146097) ((days + 719468) mod 146097)
       (year_of_era ((days + 719468) mod 146097))"

definition datetime_of :: "int \<Rightarrow> int \<times> int \<times> int \<Rightarrow> exn + datetime" where
  "datetime_of r ymd =
     (if fst ymd < 1 \<or> 9999 < fst ymd then Inl ValueError
      else Inr \<lparr>dt_year = fst ymd, dt_month = fst (snd ymd), dt_day = snd (snd ymd),
                dt_hour = r div 3600, dt_minute = (r mod 3600) div 60,
                dt_second = r mod 60\<rparr>)"

definition datetime_of_seconds :: "int \<Rightarrow> exn + datetime" where
  "datetime_of_seconds secs = datetime_of (secs mod 86400) (civil_from_days (secs div 86400))"

definition utcfromtimestamp :: "real \<Rightarrow> exn + datetime" where
  "utcfromtimestamp t = datetime_of_seconds (round_half_even (t * 1000000) div 1000000)"

definition digit :: "int \<Rightarrow> char" where
  "digit n = ''0123456789'' ! nat (n mod 10)"

definition pad2 :: "int \<Rightarrow> string" where
  "pad2 n = [digit (n div 10), digit n]"

definition pad4 :: "int \<Rightarrow> string" where
  "pad4 n = [digit (n div 1000), digit (n div 100), digit (n div 10), digit n]"

definition strftime :: "datetime \<Rightarrow> string" where
  "strftime d =
     pad4 (dt_year d) @ pad2 (dt_month d) @ pad2 (dt_day d) @ ''T'' @
     pad2 (dt_hour d) @ pad2 (dt_minute d) @ pad2 (dt_second d) @ ''Z''"

subsection \<open>Frames\<close>

text \<open>
  A numpy matrix is the list of its rows. The parsed dba file is the dictionary of the
  reader: the data matrix, the sensor descriptions (one per column) and the two
  entries of \<^verbatim>\<open>file_metadata\<close> that the script reads.
\<close>

type_synonym matrix = "pyfloat list list"

record sensor =
  sensor_name :: string
  attrs :: string

record dba =
  data :: matrix
  sensors :: "sensor list"
  filename_extension :: string
  filename_label :: string

definition bind_exn :: "exn + 'a \<Rightarrow> ('a \<Rightarrow> exn + 'b) \<Rightarrow> exn + 'b" where
  "bind_exn x f = (case x of Inl e \<Rightarrow> Inl e | Inr v \<Rightarrow> f v)"

text \<open>\<^verbatim>\<open>m[:, k]\<close>: IndexError when the matrix has no column \<open>k\<close>.\<close>

definition col :: "nat \<Rightarrow> matrix \<Rightarrow> exn + pyfloat list" where
  "col k m = (if \<forall>r\<in>set m. k < length r then Inr (map (\<lambda>r. r ! k) m) else Inl IndexError)"

text \<open>\<^verbatim>\<open>np.append(m, np.expand_dims(c, axis=1), axis=1)\<close>: ValueError unless \<open>c\<close> has
  one value per row.\<close>

definition np_append_col :: "matrix \<Rightarrow> pyfloat list \<Rightarrow> exn + matrix" where
  "np_append_col m c =
     (if length c = length m then Inr (map2 (\<lambda>r x. r @ [x]) m c) else Inl ValueError)"

text \<open>\<^verbatim>\<open>names.index(x)\<close>: the first position of \<open>x\<close>, ValueError (here \<open>None\<close>) when absent.\<close>

fun index_of :: "string \<Rightarrow> string list \<Rightarrow> nat option" where
  "index_of x [] = None"
| "index_of x (y # ys) = (if x = y then Some 0 else map_option Suc (index_of x ys))"

text \<open>\<^verbatim>\<open>m[:, zi] = c\<close>: IndexError when there is no column \<open>zi\<close>; a value of length one
  is broadcast; another length is a ValueError.\<close>

definition set_col :: "nat \<Rightarrow> pyfloat list \<Rightarrow> matrix \<Rightarrow> exn + matrix" where
  "set_col zi c m =
     (if \<not> (\<forall>r\<in>set m. zi < length r) then Inl IndexError
      else if length c = length m then Inr (map2 (\<lambda>r x. r[zi := x]) m c)
      else if length c = 1 then Inr (map (\<lambda>r. r[zi := hd c]) m)
      else Inl ValueError)"

text \<open>Line 153: \<^verbatim>\<open>np.flatnonzero(np.logical_and(ts >= p0, ts <= p1))\<close>.\<close>

definition profile_inds :: "pyfloat list \<Rightarrow> pyfloat \<Rightarrow> pyfloat \<Rightarrow> nat list" where
  "profile_inds ts p0 p1 = filter (\<lambda>i. fge (ts ! i) p0 \<and> fle (ts ! i) p1) [0..<length ts]"

text \<open>Line 218: \<^verbatim>\<open>dba['data'][p_inds, v]\<close>.\<close>

definition var_data :: "matrix \<Rightarrow> nat list \<Rightarrow> nat \<Rightarrow> exn + pyfloat list" where
  "var_data m p_inds v =
     (if (\<forall>i\<in>set p_inds. i < length m) \<and> (\<forall>r\<in>set m. v < length r)
      then Inr (map (\<lambda>i. m ! i ! v) p_inds) else Inl IndexError)"

text \<open>Lines 216 to 221: the name and the rows of every sensor, in the order of the sensors.\<close>

fun insert_vars :: "dba \<Rightarrow> nat list \<Rightarrow> nat list \<Rightarrow> exn + (string \<times> pyfloat list) list" where
  "insert_vars d p_inds [] = Inr []"
| "insert_vars d p_inds (v # vs) =
     bind_exn (var_data (data d) p_inds v) (\<lambda>x.
     bind_exn (insert_vars d p_inds vs) (\<lambda>r.
     Inr ((sensor_name (sensors d ! v), x) # r)))"

subsection \<open>Files, the state of a run and its environment\<close>

text \<open>
  A file has its permission bits and, as content, how far the writer has taken it, the
  scalar profile id and the variables written. \<open>Foreign\<close> is any content that is not
  of this run. The modes: 0o600 = 384 (\<^verbatim>\<open>tempfile.mkstemp\<close>), 0o755 = 493, 0o664 = 436.
\<close>

datatype nc_stage = Foreign | Created | Initialized | Opened | Finalized

record nc_file =
  file_mode :: nat
  stage :: nc_stage
  profile_id_var :: "int option"
  vars :: "(string \<times> pyfloat list) list"

datatype level = DEBUG | INFO | WARNING | ERROR

record state =
  fs :: "string \<Rightarrow> nc_file option"
  log_calls :: "(level \<times> string) list"
  stdout :: "string list"
  profile_id :: int
  output_nc_files :: "string list"
  processed_dbas :: "string list"
  ncalls :: nat

text \<open>
  What the operating system and the writer answer for the profile that makes the
  \<open>n\<close>-th call of \<^verbatim>\<open>mkstemp\<close>: the random part of the name, whether \<^verbatim>\<open>init_nc\<close>, and
  \<^verbatim>\<open>open_nc\<close> with \<^verbatim>\<open>update_history\<close>, return (or raise an OSError), an exception of the
  writer in lines 200 to 221, whether \<^verbatim>\<open>finish_nc\<close> returns the file name (or None),
  and whether \<^verbatim>\<open>shutil.move\<close> and \<^verbatim>\<open>os.chmod\<close> in lines 228 and 229 return.
\<close>

record profile_io =
  rand :: string
  init_ok :: bool
  open_ok :: bool
  populate_exn :: "exn option"
  finish_ok :: bool
  move_ok :: bool
  chmod_ok :: bool

text \<open>
  The arguments of the command line and everything the script reads from outside.
  \<open>slice_sensor_data\<close> is the call of line 97, \<open>slice_ctd_data\<close> the one of line 114
  (with \<^verbatim>\<open>sensors=ctd_sensors\<close>). \<open>fs0\<close> is the set of files when the run starts, \<open>tmp_dir\<close>
  what \<^verbatim>\<open>tempfile.mkdtemp\<close> returns, \<open>ctd_valid\<close> and \<open>ngdac_valid\<close> the results of the two
  validations. The arguments that the script only passes on to the writer and the
  logger (compression, format, CTD sensor prefix, log level) are left out.
\<close>

record env =
  config_path :: string
  arg_output_path :: "string option"
  dba_files :: "string list"
  start_profile_id :: int
  clobber :: bool
  debug :: bool
  isdir :: "string \<Rightarrow> bool"
  curdir :: string
  fs0 :: "string \<Rightarrow> nc_file option"
  tmp_dir :: string
  rmtree_ok :: bool
  ctd_valid :: bool
  ngdac_valid :: bool
  glider :: string
  ncw_repr :: string
  salinity_attrs :: string
  density_attrs :: string
  create_llat_dba_reader :: "string \<Rightarrow> dba"
  slice_sensor_data :: "dba \<Rightarrow> matrix option"
  slice_ctd_data :: "dba \<Rightarrow> matrix option"
  find_profiles :: "matrix \<Rightarrow> exn + matrix"
  calculate_practical_salinity :: "pyfloat list \<Rightarrow> pyfloat list \<Rightarrow> pyfloat list \<Rightarrow> pyfloat list"
  calculate_density ::
    "pyfloat list \<Rightarrow> pyfloat list \<Rightarrow> pyfloat list \<Rightarrow> pyfloat list \<Rightarrow> pyfloat \<Rightarrow> pyfloat \<Rightarrow> pyfloat list"
  calculate_depth :: "pyfloat list \<Rightarrow> pyfloat \<Rightarrow> pyfloat list"
  profile_io :: "nat \<Rightarrow> profile_io"

text \<open>How a block of the script ends: it falls through, it runs \<^verbatim>\<open>continue\<close>, or it
  raises an exception that nothing catches.\<close>

datatype ctl = Fall | Cont | Exc exn

datatype outcome = Returned int | Raised exn

definition then_step :: "ctl \<times> state \<Rightarrow> (state \<Rightarrow> ctl \<times> state) \<Rightarrow> ctl \<times> state" where
  "then_step r f = (case fst r of Fall \<Rightarrow> f (snd r) | Cont \<Rightarrow> r | Exc e \<Rightarrow> r)"

definition logc :: "level \<Rightarrow> string \<Rightarrow> state \<Rightarrow> state" where
  "logc l msg s = s\<lparr>log_calls := log_calls s @ [(l, msg)]\<rparr>"

definition upd_file :: "string \<Rightarrow> (nc_file \<Rightarrow> nc_file) \<Rightarrow> state \<Rightarrow> state" where
  "upd_file p f s = s\<lparr>fs := (fs s)(p := map_option f (fs s p))\<rparr>"

definition new_file :: nc_file where
  "new_file = \<lparr>file_mode = 384, stage = Created, profile_id_var = None, vars = []\<rparr>"

definition mkstemp :: "string \<Rightarrow> state \<Rightarrow> state" where
  "mkstemp tmp s = s\<lparr>fs := (fs s)(tmp \<mapsto> new_file), ncalls := Suc (ncalls s)\<rparr>"

definition unlink :: "string \<Rightarrow> state \<Rightarrow> state" where
  "unlink p s = s\<lparr>fs := (fs s)(p := None)\<rparr>"

definition move_file :: "string \<Rightarrow> string \<Rightarrow> state \<Rightarrow> state" where
  "move_file src dst s =
     (if src = dst then s else s\<lparr>fs := ((fs s)(dst := fs s src))(src := None)\<rparr>)"

definition chmod :: "string \<Rightarrow> nat \<Rightarrow> state \<Rightarrow> state" where
  "chmod p m s = upd_file p (\<lambda>f. f\<lparr>file_mode := m\<rparr>) s"

definition rmtree :: "string \<Rightarrow> state \<Rightarrow> state" where
  "rmtree d s = s\<lparr>fs := (\<lambda>p. if is_under d p then None else fs s p)\<rparr>"

subsection \<open>The derived variables (lines 127 to 141)\<close>

definition add_derived :: "env \<Rightarrow> dba \<Rightarrow> matrix \<Rightarrow> pyfloat \<Rightarrow> pyfloat \<Rightarrow> exn + dba" where
  "add_derived env d ctd_data mean_lat mean_lon =
     bind_exn (col 5 ctd_data) (\<lambda>c5.
     bind_exn (col 6 ctd_data) (\<lambda>c6.
     bind_exn (col 1 ctd_data) (\<lambda>c1.
     bind_exn (np_append_col (data d) (calculate_practical_salinity env c5 c6 c1)) (\<lambda>m1.
     bind_exn (col 0 ctd_data) (\<lambda>c0.
     bind_exn (np_append_col m1
        (calculate_density env c0 c5 c1 (calculate_practical_salinity env c5 c6 c1)
           mean_lat mean_lon)) (\<lambda>m2.
     case index_of ''llat_depth''
            (map sensor_name (sensors d) @ [''salinity'', ''density'']) of
       None \<Rightarrow> Inl ValueError
     | Some zi \<Rightarrow>
         bind_exn (set_col zi (calculate_depth env c1 mean_lat) m2) (\<lambda>m3.
         Inr (d\<lparr>data := m3,
                sensors := sensors d @
                  [\<lparr>sensor_name = ''salinity'', attrs = salinity_attrs env\<rparr>,
                   \<lparr>sensor_name = ''density'', attrs = density_attrs env\<rparr>]\<rparr>))))))))"

subsection \<open>One profile (lines 146 to 234)\<close>

definition profile_filename :: "env \<Rightarrow> dba \<Rightarrow> datetime \<Rightarrow> string" where
  "profile_filename env d dt =
     glider env @ ''-'' @ strftime dt @ ''-'' @ filename_extension d @ ''-profile''"

text \<open>Line 172: \<^verbatim>\<open>mkstemp\<close> joins the directory, the prefix, its random characters (letters,
  digits and the underscore) and the suffix.\<close>

definition tmp_nc_path :: "env \<Rightarrow> string \<Rightarrow> string \<Rightarrow> string" where
  "tmp_nc_path env fname r = tmp_dir env @ ''/'' @ basename fname @ r @ ''.nc''"

definition out_nc_path :: "string \<Rightarrow> string \<Rightarrow> string" where
  "out_nc_path output_path fname = path_join output_path (fname @ ''.nc'')"

text \<open>Lines 183 to 197. An OSError of \<^verbatim>\<open>init_nc\<close> is logged; one of \<^verbatim>\<open>open_nc\<close> or
  \<^verbatim>\<open>update_history\<close> is logged and the temporary file unlinked.\<close>

definition init_open :: "profile_io \<Rightarrow> string \<Rightarrow> state \<Rightarrow> ctl \<times> state" where
  "init_open io tmp_nc s =
     (if \<not> init_ok io then (Cont, logc ERROR (''Error initializing '' @ tmp_nc) s)
      else if \<not> open_ok io
        then (Cont, unlink tmp_nc (logc ERROR (''Error opening '' @ tmp_nc)
                (upd_file tmp_nc (\<lambda>f. f\<lparr>stage := Initialized, vars := []\<rparr>) s)))
      else (Fall, upd_file tmp_nc (\<lambda>f. f\<lparr>stage := Opened, vars := []\<rparr>) s))"

text \<open>Lines 199 to 221: nothing catches an exception of the writer or of the indexing.\<close>

definition populate :: "profile_io \<Rightarrow> dba \<Rightarrow> nat list \<Rightarrow> string \<Rightarrow> state \<Rightarrow> ctl \<times> state" where
  "populate io d p_inds tmp_nc s =
     (case populate_exn io of
        Some e \<Rightarrow> (Exc e, s)
      | None \<Rightarrow>
          (case insert_vars d p_inds [0..<length (sensors d)] of
             Inl e \<Rightarrow> (Exc e, s)
           | Inr vs \<Rightarrow>
               (Fall, (upd_file tmp_nc (\<lambda>f. f\<lparr>vars := vs\<rparr>) s)
                  \<lparr>log_calls := log_calls s @
                     map (\<lambda>v. (DEBUG, ''Inserting '' @ fst v @ '' data array'')) vs\<rparr>)))"

text \<open>
  Modelled from the spec: \<^verbatim>\<open>finish_nc\<close> of the writer class (line 224), which is not
  in the source. The spec gives the writer a counter of profile ids that it owns: the
  scalar profile id of a file is the counter's value, and the next profile receives
  the next integer. Whether the call returns the file name or None is a parameter.
\<close>

definition finish_nc :: "profile_io \<Rightarrow> string \<Rightarrow> state \<Rightarrow> state" where
  "finish_nc io tmp_nc s =
     (if finish_ok io
      then (upd_file tmp_nc (\<lambda>f. f\<lparr>stage := Finalized, profile_id_var := Some (profile_id s)\<rparr>) s)
             \<lparr>profile_id := profile_id s + 1\<rparr>
      else s)"

text \<open>Lines 183 to 224: the file is written at its temporary path.\<close>

definition stage_nc :: "profile_io \<Rightarrow> dba \<Rightarrow> nat list \<Rightarrow> string \<Rightarrow> state \<Rightarrow> ctl \<times> state" where
  "stage_nc io d p_inds tmp_nc s =
     then_step (init_open io tmp_nc s) (\<lambda>s1.
     then_step (populate io d p_inds tmp_nc s1) (\<lambda>s2.
     (Fall, finish_nc io tmp_nc s2)))"

text \<open>Lines 226 to 234. In Python 3 \<^verbatim>\<open>IOError\<close> is \<^verbatim>\<open>OSError\<close>, so the handler also
  catches a failure of \<^verbatim>\<open>os.chmod\<close>. The append of line 234 is outside the \<^verbatim>\<open>if\<close>.\<close>

definition publish :: "profile_io \<Rightarrow> string \<Rightarrow> string \<Rightarrow> state \<Rightarrow> ctl \<times> state" where
  "publish io tmp_nc out_nc_file s =
     then_step
       (if finish_ok io
        then (if \<not> move_ok io
              then (Cont, logc ERROR (''Error moving temp NetCDF file '' @ tmp_nc) s)
              else if \<not> chmod_ok io
              then (Cont, logc ERROR (''Error moving temp NetCDF file '' @ tmp_nc)
                      (move_file tmp_nc out_nc_file s))
              else (Fall, chmod out_nc_file 493 (move_file tmp_nc out_nc_file s)))
        else (Fall, s))
       (\<lambda>s1. (Fall, s1\<lparr>output_nc_files := output_nc_files s1 @ [out_nc_file]\<rparr>))"

text \<open>Lines 171 to 234. \<^verbatim>\<open>mkstemp\<close> raises when it finds no name that is free.\<close>

definition write_profile :: "env \<Rightarrow> string \<Rightarrow> dba \<Rightarrow> nat list \<Rightarrow> string \<Rightarrow> state \<Rightarrow> ctl \<times> state" where
  "write_profile env output_path d p_inds fname s =
     (let io = profile_io env (ncalls s);
          tmp_nc = tmp_nc_path env fname (rand io);
          out_nc_file = out_nc_path output_path fname
      in if fs s tmp_nc \<noteq> None then (Exc OSError, s)
         else if fs (mkstemp tmp_nc s) out_nc_file \<noteq> None \<and> \<not> clobber env
         then (Cont, logc WARNING (''Skipping existing NetCDF: '' @ out_nc_file) (mkstemp tmp_nc s))
         else then_step
                (stage_nc io d p_inds tmp_nc
                   (if fs (mkstemp tmp_nc s) out_nc_file \<noteq> None
                    then logc INFO (''Clobbering existing NetCDF: '' @ out_nc_file)
                           (mkstemp tmp_nc s)
                    else mkstemp tmp_nc s))
                (publish io tmp_nc out_nc_file))"

text \<open>Lines 163 and 164.\<close>

definition set_profile_id :: "env \<Rightarrow> real \<Rightarrow> state \<Rightarrow> state" where
  "set_profile_id env mean_profile_epoch s =
     (if start_profile_id env < 1 then s\<lparr>profile_id := py_int mean_profile_epoch\<rparr> else s)"

text \<open>The body of the loop of line 146. A row of \<^verbatim>\<open>profile_times\<close> is the list of its
  values; indexing an empty row raises.\<close>

definition process_profile ::
  "env \<Rightarrow> string \<Rightarrow> dba \<Rightarrow> pyfloat list \<Rightarrow> pyfloat list \<Rightarrow> state \<Rightarrow> ctl \<times> state" where
  "process_profile env output_path d ts profile_interval s =
     (if profile_interval = [] then (Exc IndexError, s)
      else case nanmean profile_interval of
        NaN \<Rightarrow> (Cont, logc WARNING ''Profile mean timestamp is Nan'' s)
      | Fin mean_profile_epoch \<Rightarrow>
          (case utcfromtimestamp mean_profile_epoch of
             Inl e \<Rightarrow> (Exc e, set_profile_id env mean_profile_epoch s)
           | Inr pro_mean_dt \<Rightarrow>
               write_profile env output_path d
                 (profile_inds ts (hd profile_interval) (last profile_interval))
                 (profile_filename env d pro_mean_dt)
                 (set_profile_id env mean_profile_epoch s)))"

fun profiles_loop ::
  "env \<Rightarrow> string \<Rightarrow> dba \<Rightarrow> pyfloat list \<Rightarrow> matrix \<Rightarrow> state \<Rightarrow> ctl \<times> state" where
  "profiles_loop env output_path d ts [] s = (Fall, s)"
| "profiles_loop env output_path d ts (profile_interval # rest) s =
     (case process_profile env output_path d ts profile_interval s of
        (Exc e, s1) \<Rightarrow> (Exc e, s1)
      | (Fall, s1) \<Rightarrow> profiles_loop env output_path d ts rest s1
      | (Cont, s1) \<Rightarrow> profiles_loop env output_path d ts rest s1)"

subsection \<open>One source file (lines 82 to 236)\<close>

definition skip_dba :: "string \<Rightarrow> string \<Rightarrow> state \<Rightarrow> ctl \<times> state" where
  "skip_dba msg dba_file s =
     (Cont, logc INFO (''Skipping dba: '' @ dba_file) (logc WARNING msg s))"

text \<open>Lines 114 to 236.\<close>

definition derive_and_write ::
  "env \<Rightarrow> string \<Rightarrow> string \<Rightarrow> dba \<Rightarrow> matrix \<Rightarrow> matrix \<Rightarrow> state \<Rightarrow> ctl \<times> state" where
  "derive_and_write env output_path dba_file d yo profile_times s =
     (case slice_ctd_data env d of
        None \<Rightarrow> (Exc TypeError, s)
      | Some ctd_data \<Rightarrow>
     (case col 2 ctd_data of
        Inl e \<Rightarrow> (Exc e, s)
      | Inr lat \<Rightarrow>
     if list_all isnan lat
     then skip_dba ''dba contains no valid llat_latitude values'' dba_file s
     else
     (case col 3 ctd_data of
        Inl e \<Rightarrow> (Exc e, s)
      | Inr lon \<Rightarrow>
     if list_all isnan lon
     then skip_dba ''dba contains no valid llat_longitude values'' dba_file s
     else
     (case add_derived env d ctd_data (nanmean lat) (nanmean lon) of
        Inl e \<Rightarrow> (Exc e, s)
      | Inr d1 \<Rightarrow>
     (case col 0 yo of
        Inl e \<Rightarrow> (Exc e, s)
      | Inr ts \<Rightarrow>
          then_step (profiles_loop env output_path d1 ts profile_times s)
            (\<lambda>s1. (Fall, s1\<lparr>processed_dbas := processed_dbas s1 @ [dba_file]\<rparr>)))))))"

text \<open>
  The body of the loop of line 82. In line 103 the handler of the ValueError formats
  the exception with \<^verbatim>\<open>'{:s}'\<close>; an exception has no \<^verbatim>\<open>__format__\<close> of its own, and
  \<^verbatim>\<open>object.__format__\<close> raises a TypeError for a format specification that is not empty.
  So the handler raises, and its \<^verbatim>\<open>continue\<close> is never reached.
\<close>

definition process_source :: "env \<Rightarrow> string \<Rightarrow> string \<Rightarrow> state \<Rightarrow> ctl \<times> state" where
  "process_source env output_path dba_file s =
     (if fs s dba_file = None
      then (Cont, logc ERROR (''Invalid dba file specified: '' @ dba_file) s)
      else if data (create_llat_dba_reader env dba_file) = []
      then (Cont, logc WARNING (''Skipping empty dba file: '' @ dba_file)
              (logc INFO (''Processing dba file: '' @ dba_file) s))
      else
        (case slice_sensor_data env (create_llat_dba_reader env dba_file) of
           None \<Rightarrow> (Cont, logc INFO (''Processing dba file: '' @ dba_file) s)
         | Some yo \<Rightarrow>
             (case find_profiles env yo of
                Inl e \<Rightarrow>
                  (Exc (if e = ValueError then TypeError else e),
                   logc INFO (''Processing dba file: '' @ dba_file) s)
              | Inr profile_times \<Rightarrow>
                  if profile_times = []
                  then (Cont, logc INFO (''No profiles indexed: '' @ dba_file)
                          (logc INFO (''Processing dba file: '' @ dba_file) s))
                  else derive_and_write env output_path dba_file
                         (create_llat_dba_reader env dba_file) yo profile_times
                         (logc INFO (''Processing dba file: '' @ dba_file) s))))"

fun sources_loop :: "env \<Rightarrow> string \<Rightarrow> string list \<Rightarrow> state \<Rightarrow> ctl \<times> state" where
  "sources_loop env output_path [] s = (Fall, s)"
| "sources_loop env output_path (dba_file # rest) s =
     (case process_source env output_path dba_file s of
        (Exc e, s1) \<Rightarrow> (Exc e, s1)
      | (Fall, s1) \<Rightarrow> sources_loop env output_path rest s1
      | (Cont, s1) \<Rightarrow> sources_loop env output_path rest s1)"

subsection \<open>The run (lines 19 to 251)\<close>

text \<open>Lines 246 to 249: \<^verbatim>\<open>os.chmod\<close> raises for a path that is no file.\<close>

fun print_outputs :: "string list \<Rightarrow> state \<Rightarrow> ctl \<times> state" where
  "print_outputs [] s = (Fall, s)"
| "print_outputs (output_nc_file # rest) s =
     (if fs s output_nc_file = None then (Exc OSError, s)
      else print_outputs rest
             ((chmod output_nc_file 436 s)\<lparr>stdout := stdout s @ [output_nc_file]\<rparr>))"

definition init_state :: "env \<Rightarrow> state" where
  "init_state env =
     \<lparr>fs = fs0 env, log_calls = [], stdout = [], profile_id = start_profile_id env,
      output_nc_files = [], processed_dbas = [], ncalls = 0\<rparr>"

text \<open>Line 29.\<close>

definition resolve_output_path :: "env \<Rightarrow> string" where
  "resolve_output_path env =
     (case arg_output_path env of
        None \<Rightarrow> curdir env
      | Some p \<Rightarrow> if p = [] then curdir env else p)"

text \<open>Lines 75 to 251. When \<^verbatim>\<open>shutil.rmtree\<close> raises, what it had removed is not
  modelled: the files stay.\<close>

definition run_batch :: "env \<Rightarrow> string \<Rightarrow> state \<Rightarrow> outcome \<times> state" where
  "run_batch env output_path s =
     (case sources_loop env output_path (dba_files env)
             (logc DEBUG (''Temporary NetCDF directory: '' @ tmp_dir env) s) of
        (Exc e, s1) \<Rightarrow> (Raised e, s1)
      | (c, s1) \<Rightarrow>
          if \<not> rmtree_ok env
          then (Returned 1, logc ERROR ''rmtree''
                  (logc DEBUG (''Removing temporary directory: '' @ tmp_dir env) s1))
          else
            (case print_outputs (output_nc_files s1)
                    (rmtree (tmp_dir env)
                       (logc DEBUG (''Removing temporary directory: '' @ tmp_dir env) s1)) of
               (Exc e, s2) \<Rightarrow> (Raised e, s2)
             | (c2, s2) \<Rightarrow> (Returned 0, s2)))"

text \<open>Lines 45 to 47: only an empty current directory leaves the output path empty.\<close>

definition entry_state :: "env \<Rightarrow> state" where
  "entry_state env =
     (if resolve_output_path env = []
      then logc INFO ''No NetCDF output_path specified. Using cwd: '' (init_state env)
      else init_state env)"

definition main :: "env \<Rightarrow> outcome \<times> state" where
  "main env =
     (if \<not> isdir env (config_path env)
      then (Returned 1,
            logc ERROR (''Invalid configuration directory: '' @ config_path env) (init_state env))
      else if \<not> isdir env (resolve_output_path env)
      then (Returned 1,
            logc ERROR (''Invalid output_path: '' @ resolve_output_path env) (entry_state env))
      else if dba_files env = []
      then (Returned 1, logc ERROR ''No Slocum dba files specified'' (entry_state env))
      else if \<not> ctd_valid env
      then (Returned 1, logc ERROR ''Bad sensor definitions'' (entry_state env))
      else if \<not> ngdac_valid env
      then (Returned 1, logc ERROR ''Bad sensor definitions'' (entry_state env))
      else if debug env
      then (Returned 0, (entry_state env)\<lparr>stdout := [ncw_repr env]\<rparr>)
      else run_batch env (resolve_output_path env) (entry_state env))"

subsection \<open>The file names of the convention\<close>

text \<open>
  The name the specification gives to the file of a profile: the glider, the mean time
  of the profile and the extension of the source file.
\<close>

definition ngdac_name :: "string \<Rightarrow> datetime \<Rightarrow> string \<Rightarrow> string" where
  "ngdac_name glider_id dt ext = glider_id @ ''-'' @ strftime dt @ ''-'' @ ext @ ''-profile.nc''"

text \<open>
  The paths that the convention gives to the profiles of a run: a path is the name of
  a profile when the mean time of the interval is a date \<open>dt\<close> and the path is the
  output directory joined with the name for the glider, \<open>dt\<close> and the extension of the
  source file; it is a name of a source file when it is the name of one of its
  profiles, and a name of the run when it is a name of one of its source files.
\<close>

definition names_profile :: "env \<Rightarrow> string \<Rightarrow> dba \<Rightarrow> pyfloat list \<Rightarrow> string \<Rightarrow> bool" where
  "names_profile env output_path d iv p =
     (case nanmean iv of
        NaN \<Rightarrow> False
      | Fin m \<Rightarrow>
          (case utcfromtimestamp m of
             Inl e \<Rightarrow> False
           | Inr dt \<Rightarrow>
               p = path_join output_path (ngdac_name (glider env) dt (filename_extension d))))"

definition names_source :: "env \<Rightarrow> string \<Rightarrow> string \<Rightarrow> string \<Rightarrow> bool" where
  "names_source env output_path dba_file p =
     (case slice_sensor_data env (create_llat_dba_reader env dba_file) of
        None \<Rightarrow> False
      | Some yo \<Rightarrow>
          (case find_profiles env yo of
             Inl e \<Rightarrow> False
           | Inr profile_times \<Rightarrow>
               list_ex (\<lambda>iv. names_profile env output_path
                                (create_llat_dba_reader env dba_file) iv p) profile_times))"

definition names_run :: "env \<Rightarrow> string \<Rightarrow> bool" where
  "names_run env p =
     list_ex (\<lambda>dba_file. names_source env (resolve_output_path env) dba_file p) (dba_files env)"

subsection \<open>Files that are kept, files that are finalized\<close>

text \<open>A file is kept when the path holds the same file as before, whatever its
  permission bits; it is finalized when the writer has closed it with success.\<close>

definition file_kept :: "nc_file option \<Rightarrow> nc_file option \<Rightarrow> bool" where
  "file_kept a b =
     (case a of
        None \<Rightarrow> b = None
      | Some f \<Rightarrow>
          (case b of
             None \<Rightarrow> False
           | Some g \<Rightarrow>
               stage g = stage f \<and> profile_id_var g = profile_id_var f \<and> vars g = vars f))"

definition finalized :: "nc_file option \<Rightarrow> bool" where
  "finalized b = (case b of None \<Rightarrow> False | Some g \<Rightarrow> stage g = Finalized)"

text \<open>The temporary path of the profile that is written next.\<close>

definition wp_tmp :: "env \<Rightarrow> string \<Rightarrow> state \<Rightarrow> string" where
  "wp_tmp env fname s = tmp_nc_path env fname (rand (profile_io env (ncalls s)))"

text \<open>The state in which the writer starts on it: the temporary file exists, and an
  output file that is about to be replaced has been logged.\<close>

definition wp_start :: "env \<Rightarrow> string \<Rightarrow> string \<Rightarrow> state \<Rightarrow> state" where
  "wp_start env output_path fname s =
     (if fs (mkstemp (wp_tmp env fname s) s) (out_nc_path output_path fname) \<noteq> None
      then logc INFO (''Clobbering existing NetCDF: '' @ out_nc_path output_path fname)
             (mkstemp (wp_tmp env fname s) s)
      else mkstemp (wp_tmp env fname s) s)"

subsection \<open>An example run\<close>

text \<open>
  One source file with three rows and two profiles that share the boundary time 20.
  The physics are stand-ins; every call into the operating system and the writer
  succeeds.
\<close>

definition ex_dba :: dba where
  "ex_dba =
     \<lparr>data = [[Fin 10, Fin 1], [Fin 20, Fin 2], [Fin 30, Fin 1]],
      sensors = [\<lparr>sensor_name = ''llat_time'', attrs = ''''\<rparr>,
                 \<lparr>sensor_name = ''llat_depth'', attrs = ''''\<rparr>],
      filename_extension = ''sbd'', filename_label = ''a''\<rparr>"

definition ex_ctd :: matrix where
  "ex_ctd =
     [[Fin 10, Fin 1, Fin 40, Fin (-70), Fin 1, Fin 3, Fin 15],
      [Fin 20, Fin 2, NaN, NaN, Fin 2, Fin 3, Fin 15],
      [Fin 30, Fin 1, Fin 40, Fin (-70), Fin 1, Fin 3, Fin 15]]"

definition ex_io :: profile_io where
  "ex_io =
     \<lparr>rand = ''x'', init_ok = True, open_ok = True, populate_exn = None,
      finish_ok = True, move_ok = True, chmod_ok = True\<rparr>"

definition ex_foreign :: nc_file where
  "ex_foreign = \<lparr>file_mode = 420, stage = Foreign, profile_id_var = None, vars = []\<rparr>"

definition ex_env :: env where
  "ex_env =
     \<lparr>config_path = ''/c'', arg_output_path = Some ''/o'', dba_files = [''/a''],
      start_profile_id = 0, clobber = False, debug = False,
      isdir = (\<lambda>p. p = ''/c'' \<or> p = ''/o''), curdir = ''/h'',
      fs0 = [''/a'' \<mapsto> ex_foreign], tmp_dir = ''/t'', rmtree_ok = True,
      ctd_valid = True, ngdac_valid = True, glider = ''g'', ncw_repr = ''w'',
      salinity_attrs = ''s'', density_attrs = ''d'',
      create_llat_dba_reader = (\<lambda>f. ex_dba),
      slice_sensor_data = (\<lambda>d. Some (data d)),
      slice_ctd_data = (\<lambda>d. Some ex_ctd),
      find_profiles = (\<lambda>yo. Inr [[Fin 10, Fin 20], [Fin 20, Fin 30]]),
      calculate_practical_salinity = (\<lambda>c t p. map (\<lambda>x. Fin 35) c),
      calculate_density = (\<lambda>a b c d e f. map (\<lambda>x. Fin 1025) a),
      calculate_depth = (\<lambda>p l. p),
      profile_io = (\<lambda>n. ex_io\<lparr>rand := (if n = 0 then ''x'' else ''y'')\<rparr>)\<rparr>"

text \<open>The frame of the example after the derived variables.\<close>

definition ex_dba1 :: dba where
  "ex_dba1 =
     \<lparr>data = [[Fin 10, Fin 1, Fin 35, Fin 1025], [Fin 20, Fin 2, Fin 35, Fin 1025],
              [Fin 30, Fin 1, Fin 35, Fin 1025]],
      sensors = [\<lparr>sensor_name = ''llat_time'', attrs = ''''\<rparr>,
                 \<lparr>sensor_name = ''llat_depth'', attrs = ''''\<rparr>,
                 \<lparr>sensor_name = ''salinity'', attrs = ''s''\<rparr>,
                 \<lparr>sensor_name = ''density'', attrs = ''d''\<rparr>],
      filename_extension = ''sbd'', filename_label = ''a''\<rparr>"

text \<open>
  Variations of the example. In \<open>ex_env_unfinished\<close> there is one profile and
  \<open>finish_nc\<close> returns None; in \<open>ex_env_clobbered\<close> moreover a file exists at the output
  path of the profile and \<open>--clobber\<close> is given; in \<open>ex_env_unlisted\<close> the \<open>chmod\<close> after
  the move fails; in \<open>ex_env_exists\<close> a file exists at the output path and \<open>--clobber\<close>
  is not given; in \<open>ex_env_far\<close> the times of the profile are beyond the year 9999.
\<close>

definition ex_env_unfinished :: env where
  "ex_env_unfinished =
     ex_env\<lparr>find_profiles := (\<lambda>yo. Inr [[Fin 10, Fin 20]]),
            profile_io := (\<lambda>n. ex_io\<lparr>finish_ok := False\<rparr>)\<rparr>"

definition ex_env_clobbered :: env where
  "ex_env_clobbered =
     ex_env_unfinished
       \<lparr>clobber := True,
        fs0 := [''/a'' \<mapsto> ex_foreign, ''/o/g-19700101T000015Z-sbd-profile.nc'' \<mapsto> ex_foreign]\<rparr>"

definition ex_env_unlisted :: env where
  "ex_env_unlisted =
     ex_env\<lparr>find_profiles := (\<lambda>yo. Inr [[Fin 10, Fin 20]]),
            profile_io := (\<lambda>n. ex_io\<lparr>chmod_ok := False\<rparr>)\<rparr>"


definition ex_env_far :: env where
  "ex_env_far = ex_env\<lparr>find_profiles := (\<lambda>yo. Inr [[Fin 1000000000000, Fin 1000000000000]])\<rparr>"

text \<open>
  Two source files: the depth of the first one is constant, and the segmenter raises
  a ValueError for it; the second one is the source file of the example.
\<close>

definition ex_flat :: dba where
  "ex_flat =
     \<lparr>data = [[Fin 10, Fin 5], [Fin 20, Fin 5]],
      sensors = [\<lparr>sensor_name = ''llat_time'', attrs = ''''\<rparr>,
                 \<lparr>sensor_name = ''llat_depth'', attrs = ''''\<rparr>],
      filename_extension = ''sbd'', filename_label = ''b''\<rparr>"

definition ex_env_flat :: env where
  "ex_env_flat =
     ex_env\<lparr>dba_files := [''/b'', ''/a''],
            fs0 := [''/a'' \<mapsto> ex_foreign, ''/b'' \<mapsto> ex_foreign],
            create_llat_dba_reader := (\<lambda>f. if f = ''/b'' then ex_flat else ex_dba),
            find_profiles := (\<lambda>yo. if length yo = 2 then Inl ValueError
                                     else Inr [[Fin 10, Fin 20]])\<rparr>"

section \<open>Properties\<close>

subsection \<open>Results of the matrix operations\<close>

lemma bind_exn_Inr: "bind_exn x f = Inr y \<longleftrightarrow> (\<exists>v. x = Inr v \<and> f v = Inr y)"
  by (cases x) (simp_all add: bind_exn_def)

lemma col_Inr: "col k m = Inr c \<longleftrightarrow> (\<forall>r\<in>set m. k < length r) \<and> c = map (\<lambda>r. r ! k) m"
  by (auto simp: col_def)

lemma np_append_col_Inr:
  "np_append_col m c = Inr m1 \<longleftrightarrow> length c = length m \<and> m1 = map2 (\<lambda>r x. r @ [x]) m c"
  by (auto simp: np_append_col_def)

lemma index_of_Some:
  "index_of x ys = Some i \<Longrightarrow> i < length ys \<and> ys ! i = x \<and> (\<forall>j<i. ys ! j \<noteq> x)"
proof (induction ys arbitrary: i)
  case Nil
  then show ?case by simp
next
  case (Cons y ys)
  show ?case
  proof (cases "x = y")
    case True
    with Cons.prems show ?thesis by simp
  next
    case False
    with Cons.prems obtain k where k: "index_of x ys = Some k" "i = Suc k"
      by auto
    from Cons.IH [OF k(1)] False k(2) show ?thesis
      by (auto simp: nth_Cons split: nat.splits)
  qed
qed

lemma index_of_append:
  "x \<notin> set zs \<Longrightarrow> index_of x (ys @ zs) = index_of x ys"
proof (induction ys)
  case Nil
  then show ?case by (induction zs) auto
next
  case (Cons y ys)
  then show ?case by simp
qed

lemma set_col_Inr:
  "set_col zi c m = Inr m1 \<Longrightarrow>
     (\<forall>r\<in>set m. zi < length r) \<and> (length c = length m \<or> length c = 1) \<and> length m1 = length m \<and>
     (\<forall>i<length m. m1 ! i = (m ! i)[zi := (if length c = length m then c ! i else hd c)])"
  by (auto simp: set_col_def split: if_splits)

subsection \<open>The shape of the frame after the derived variables\<close>

text \<open>
  Claim C7. When the derived variables step of a source returns, and the frame had one
  column per sensor, the frame has two more sensors and two more columns at the end,
  salinity then density, with one value per row; the depth is written into the column
  of the first sensor named \<open>llat_depth\<close>, which is one of the old columns; the number
  and the order of the rows and every other old column are as before.
\<close>

theorem derived_merge_shape:
  assumes ok: "add_derived env d ctd_data mean_lat mean_lon = Inr d1"
    and aligned: "\<forall>r\<in>set (data d). length r = length (sensors d)"
  shows "\<exists>zi sal dens dep.
           sal = calculate_practical_salinity env (map (\<lambda>r. r ! 5) ctd_data)
                   (map (\<lambda>r. r ! 6) ctd_data) (map (\<lambda>r. r ! 1) ctd_data) \<and>
           dens = calculate_density env (map (\<lambda>r. r ! 0) ctd_data) (map (\<lambda>r. r ! 5) ctd_data)
                    (map (\<lambda>r. r ! 1) ctd_data) sal mean_lat mean_lon \<and>
           dep = calculate_depth env (map (\<lambda>r. r ! 1) ctd_data) mean_lat \<and>
           index_of ''llat_depth'' (map sensor_name (sensors d)) = Some zi \<and>
           zi < length (sensors d) \<and>
           length sal = length (data d) \<and> length dens = length (data d) \<and>
           map sensor_name (sensors d1) = map sensor_name (sensors d) @ [''salinity'', ''density''] \<and>
           take (length (sensors d)) (sensors d1) = sensors d \<and>
           length (data d1) = length (data d) \<and>
           (\<forall>i<length (data d).
              data d1 ! i =
                (data d ! i)[zi := (if length dep = length (data d) then dep ! i else hd dep)]
                  @ [sal ! i, dens ! i]) \<and>
           (\<forall>i<length (data d). \<forall>j<length (sensors d).
              j \<noteq> zi \<longrightarrow> data d1 ! i ! j = data d ! i ! j)"
proof -
  define c0 where "c0 = map (\<lambda>r. r ! 0) ctd_data"
  define c1 where "c1 = map (\<lambda>r. r ! 1) ctd_data"
  define c5 where "c5 = map (\<lambda>r. r ! 5) ctd_data"
  define c6 where "c6 = map (\<lambda>r. r ! 6) ctd_data"
  define sal where "sal = calculate_practical_salinity env c5 c6 c1"
  define dens where "dens = calculate_density env c0 c5 c1 sal mean_lat mean_lon"
  define dep where "dep = calculate_depth env c1 mean_lat"
  define m1 where "m1 = map2 (\<lambda>r x. r @ [x]) (data d) sal"
  define m2 where "m2 = map2 (\<lambda>r x. r @ [x]) m1 dens"
  from ok obtain zi m3 where
    lsal: "length sal = length (data d)" and
    ldens: "length dens = length m1" and
    zi: "index_of ''llat_depth'' (map sensor_name (sensors d) @ [''salinity'', ''density'']) = Some zi" and
    m3: "set_col zi dep m2 = Inr m3" and
    d1: "d1 = d\<lparr>data := m3,
                sensors := sensors d @
                  [\<lparr>sensor_name = ''salinity'', attrs = salinity_attrs env\<rparr>,
                   \<lparr>sensor_name = ''density'', attrs = density_attrs env\<rparr>]\<rparr>"
    unfolding add_derived_def c0_def c1_def c5_def c6_def sal_def dens_def dep_def m1_def m2_def
    by (auto simp: bind_exn_Inr col_Inr np_append_col_Inr split: option.splits)
  have lm1: "length m1 = length (data d)"
    by (simp add: m1_def lsal)
  have lm2: "length m2 = length (data d)"
    by (simp add: m2_def lm1 ldens)
  have zi': "index_of ''llat_depth'' (map sensor_name (sensors d)) = Some zi"
    using zi index_of_append [of "''llat_depth''" "[''salinity'', ''density'']" "map sensor_name (sensors d)"]
    by simp
  have zilt: "zi < length (sensors d)"
    using index_of_Some [OF zi'] by simp
  have m2row: "m2 ! i = data d ! i @ [sal ! i, dens ! i]" if "i < length (data d)" for i
    using that by (simp add: m2_def m1_def lsal ldens lm1)
  from set_col_Inr [OF m3] have
    lm3: "length m3 = length m2" and
    m3row: "\<forall>i<length m2. m3 ! i = (m2 ! i)[zi := (if length dep = length m2 then dep ! i else hd dep)]"
    by simp_all
  have row: "data d1 ! i =
        (data d ! i)[zi := (if length dep = length (data d) then dep ! i else hd dep)] @ [sal ! i, dens ! i]"
    if i: "i < length (data d)" for i
  proof -
    have "zi < length (data d ! i)"
      using aligned i zilt by simp
    then show ?thesis
      using m3row i by (simp add: d1 lm2 m2row list_update_append1)
  qed
  have other: "data d1 ! i ! j = data d ! i ! j"
    if i: "i < length (data d)" and j: "j < length (sensors d)" and ne: "j \<noteq> zi" for i j
  proof -
    have "j < length (data d ! i)"
      using aligned i j by simp
    then show ?thesis
      using row [OF i] ne by (simp add: nth_append)
  qed
  show ?thesis
    using zi' zilt lsal ldens lm1 row other
    by (intro exI [of _ zi] exI [of _ sal] exI [of _ dens] exI [of _ dep])
       (simp add: sal_def dens_def dep_def c0_def c1_def c5_def c6_def d1 lm3 lm2)
qed

theorem derived_merge_shape_witness:
  "add_derived ex_env ex_dba ex_ctd (Fin 40) (Fin (- 70)) = Inr ex_dba1 \<and>
   list_all (\<lambda>r. length r = length (sensors ex_dba)) (data ex_dba) \<and>
   (\<exists>zi. index_of ''llat_depth'' (map sensor_name (sensors ex_dba)) = Some zi \<and>
      zi < length (sensors ex_dba) \<and>
      map sensor_name (sensors ex_dba1) =
        map sensor_name (sensors ex_dba) @ [''salinity'', ''density''] \<and>
      length (data ex_dba1) = length (data ex_dba) \<and>
      (\<forall>i<length (data ex_dba). \<forall>j<length (sensors ex_dba).
         j \<noteq> zi \<longrightarrow> data ex_dba1 ! i ! j = data ex_dba ! i ! j))"
proof -
  have h1: "add_derived ex_env ex_dba ex_ctd (Fin 40) (Fin (- 70)) = Inr ex_dba1"
    by code_simp
  have h2: "\<forall>r\<in>set (data ex_dba). length r = length (sensors ex_dba)"
    by (simp add: ex_dba_def)
  from derived_merge_shape [OF h1 h2] obtain zi where
    "index_of ''llat_depth'' (map sensor_name (sensors ex_dba)) = Some zi"
    "zi < length (sensors ex_dba)"
    "map sensor_name (sensors ex_dba1) =
        map sensor_name (sensors ex_dba) @ [''salinity'', ''density'']"
    "length (data ex_dba1) = length (data ex_dba)"
    "\<forall>i<length (data ex_dba). \<forall>j<length (sensors ex_dba).
         j \<noteq> zi \<longrightarrow> data ex_dba1 ! i ! j = data ex_dba ! i ! j"
    by blast
  with h1 h2 show ?thesis
    unfolding list_all_iff by blast
qed

subsection \<open>The steps of a profile\<close>

lemma tmp_nc_under: "is_under (tmp_dir env) (tmp_nc_path env fname r)"
  by (simp add: is_under_def tmp_nc_path_def)

lemma fs_logc [simp]: "fs (logc l m s) = fs s"
  by (simp add: logc_def)

lemma then_step_eq:
  "then_step r f = (c, s') \<longleftrightarrow>
     (fst r = Fall \<and> f (snd r) = (c, s')) \<or> (fst r \<noteq> Fall \<and> r = (c, s'))"
  by (cases r; cases "fst r") (auto simp: then_step_def)

lemmas step_defs = init_open_def populate_def finish_nc_def stage_nc_def publish_def
  upd_file_def mkstemp_def unlink_def move_file_def chmod_def

lemma var_data_Inr: "var_data m p_inds v = Inr xs \<Longrightarrow> xs = map (\<lambda>i. m ! i ! v) p_inds"
  by (auto simp: var_data_def split: if_splits)

lemma insert_vars_Inr:
  "insert_vars d p_inds vs = Inr r \<Longrightarrow>
     r = map (\<lambda>v. (sensor_name (sensors d ! v), map (\<lambda>i. data d ! i ! v) p_inds)) vs"
proof (induction vs arbitrary: r)
  case Nil
  then show ?case by simp
next
  case (Cons v vs)
  from Cons.prems obtain x r1 where
    x: "var_data (data d) p_inds v = Inr x" and
    r1: "insert_vars d p_inds vs = Inr r1" and
    r: "r = (sensor_name (sensors d ! v), x) # r1"
    by (auto simp: bind_exn_Inr)
  from Cons.IH [OF r1] var_data_Inr [OF x] r show ?case
    by simp
qed

lemma stage_nc_fs:
  assumes "stage_nc io d p_inds tmp s = (c, s')" "p \<noteq> tmp"
  shows "fs s' p = fs s p"
  using assms
  by (auto simp: step_defs then_step_eq split: if_splits option.splits sum.splits)

lemma stage_nc_Fall:
  assumes "stage_nc io d p_inds tmp s = (Fall, s')" "fs s tmp = Some f0"
  shows "\<exists>vs. insert_vars d p_inds [0..<length (sensors d)] = Inr vs \<and>
           fs s' tmp = Some (if finish_ok io
              then f0\<lparr>stage := Finalized, profile_id_var := Some (profile_id s), vars := vs\<rparr>
              else f0\<lparr>stage := Opened, vars := vs\<rparr>) \<and>
           profile_id s' = (if finish_ok io then profile_id s + 1 else profile_id s) \<and>
           output_nc_files s' = output_nc_files s"
  using assms
  by (auto simp: step_defs then_step_eq logc_def split: if_splits option.splits sum.splits)


lemma publish_fs:
  assumes "publish io tmp out s = (c, s')" "p \<noteq> tmp"
  shows "fs s' p = fs s p \<or>
         (p = out \<and> finish_ok io \<and> move_ok io \<and>
          (\<exists>m. fs s' p = map_option (\<lambda>f. f\<lparr>file_mode := m\<rparr>) (fs s tmp)))"
proof (cases "finish_ok io \<and> move_ok io")
  case False
  then show ?thesis
    using assms by (auto simp: publish_def then_step_eq split: if_splits)
next
  case True
  show ?thesis
  proof (cases "chmod_ok io")
    case True
    with \<open>finish_ok io \<and> move_ok io\<close> assms show ?thesis
      by (auto simp: publish_def then_step_eq move_file_def chmod_def upd_file_def
            split: if_splits)
  next
    case False
    with \<open>finish_ok io \<and> move_ok io\<close> assms have "fs s' = fs (move_file tmp out s)"
      by (auto simp: publish_def then_step_eq)
    moreover have "\<exists>m. fs s tmp = map_option (\<lambda>f. f\<lparr>file_mode := m\<rparr>) (fs s tmp)"
      by (cases "fs s tmp") (auto intro: exI [of _ "file_mode (the (fs s tmp))"])
    ultimately show ?thesis
      using True assms(2) by (auto simp: move_file_def split: if_splits)
  qed
qed

lemma publish_Fall:
  assumes "publish io tmp out s = (Fall, s')" "finish_ok io"
  shows "move_ok io \<and> chmod_ok io \<and>
         fs s' out = map_option (\<lambda>f. f\<lparr>file_mode := 493\<rparr>) (fs s tmp) \<and>
         profile_id s' = profile_id s \<and>
         output_nc_files s' = output_nc_files s @ [out]"
  using assms
  by (auto simp: publish_def then_step_eq move_file_def chmod_def upd_file_def
        split: if_splits)


lemma write_profile_unfold:
  "write_profile env op d p_inds fname s =
     (if fs s (wp_tmp env fname s) \<noteq> None then (Exc OSError, s)
      else if fs (mkstemp (wp_tmp env fname s) s) (out_nc_path op fname) \<noteq> None \<and> \<not> clobber env
      then (Cont, logc WARNING (''Skipping existing NetCDF: '' @ out_nc_path op fname)
              (mkstemp (wp_tmp env fname s) s))
      else then_step
             (stage_nc (profile_io env (ncalls s)) d p_inds (wp_tmp env fname s)
                (wp_start env op fname s))
             (publish (profile_io env (ncalls s)) (wp_tmp env fname s) (out_nc_path op fname)))"
  by (simp add: write_profile_def wp_tmp_def wp_start_def Let_def)

lemma wp_start_simps [simp]:
  "fs (wp_start env op fname s) = (fs s)(wp_tmp env fname s \<mapsto> new_file)"
  "profile_id (wp_start env op fname s) = profile_id s"
  "output_nc_files (wp_start env op fname s) = output_nc_files s"
  "stdout (wp_start env op fname s) = stdout s"
  by (simp_all add: wp_start_def mkstemp_def logc_def)

text \<open>The four ways a profile can go once its file name is known.\<close>

lemma write_profile_cases:
  assumes wp: "write_profile env op d p_inds fname s = (c, s')"
  obtains
    (taken) "fs s (wp_tmp env fname s) \<noteq> None" "c = Exc OSError" "s' = s"
  | (exists) "fs s (wp_tmp env fname s) = None" "c = Cont"
      "fs (mkstemp (wp_tmp env fname s) s) (out_nc_path op fname) \<noteq> None" "\<not> clobber env"
      "s' = logc WARNING (''Skipping existing NetCDF: '' @ out_nc_path op fname)
              (mkstemp (wp_tmp env fname s) s)"
  | (stopped) "fs s (wp_tmp env fname s) = None" "c \<noteq> Fall"
      "stage_nc (profile_io env (ncalls s)) d p_inds (wp_tmp env fname s)
         (wp_start env op fname s) = (c, s')"
  | (staged) sm where "fs s (wp_tmp env fname s) = None"
      "stage_nc (profile_io env (ncalls s)) d p_inds (wp_tmp env fname s)
         (wp_start env op fname s) = (Fall, sm)"
      "publish (profile_io env (ncalls s)) (wp_tmp env fname s) (out_nc_path op fname) sm = (c, s')"
proof (cases "fs s (wp_tmp env fname s) \<noteq> None")
  case True
  with wp have "c = Exc OSError" "s' = s"
    unfolding write_profile_unfold by simp_all
  with True show ?thesis
    by (rule taken)
next
  case free: False
  show ?thesis
  proof (cases "fs (mkstemp (wp_tmp env fname s) s) (out_nc_path op fname) \<noteq> None \<and> \<not> clobber env")
    case True
    with wp free have "c = Cont"
      "s' = logc WARNING (''Skipping existing NetCDF: '' @ out_nc_path op fname)
            (mkstemp (wp_tmp env fname s) s)"
      unfolding write_profile_unfold by simp_all
    with free True show ?thesis
      by (intro exists) simp_all
  next
    case False
    with wp free have ts: "then_step
           (stage_nc (profile_io env (ncalls s)) d p_inds (wp_tmp env fname s)
              (wp_start env op fname s))
           (publish (profile_io env (ncalls s)) (wp_tmp env fname s) (out_nc_path op fname))
         = (c, s')"
      unfolding write_profile_unfold by (auto split: if_splits)
    show ?thesis
    proof (cases "fst (stage_nc (profile_io env (ncalls s)) d p_inds (wp_tmp env fname s)
                    (wp_start env op fname s)) = Fall")
      case True
      then obtain sm where sm: "stage_nc (profile_io env (ncalls s)) d p_inds (wp_tmp env fname s)
                (wp_start env op fname s) = (Fall, sm)"
        by (cases "stage_nc (profile_io env (ncalls s)) d p_inds (wp_tmp env fname s)
                (wp_start env op fname s)") auto
      with ts have "publish (profile_io env (ncalls s)) (wp_tmp env fname s) (out_nc_path op fname) sm = (c, s')"
        by (simp add: then_step_eq)
      with free sm show ?thesis
        by (intro staged [of sm]) simp_all
    next
      case False
      with ts have "stage_nc (profile_io env (ncalls s)) d p_inds (wp_tmp env fname s)
                (wp_start env op fname s) = (c, s')"
        "c \<noteq> Fall"
        by (auto simp: then_step_eq)
      with free show ?thesis
        by (intro stopped) simp_all
    qed
  qed
qed

lemma write_profile_Fall:
  assumes wp: "write_profile env op d p_inds fname s = (Fall, s')"
    and fin: "finish_ok (profile_io env (ncalls s))"
  shows "fs s' (out_nc_path op fname) =
           Some \<lparr>file_mode = 493, stage = Finalized, profile_id_var = Some (profile_id s),
                 vars = map (\<lambda>v. (sensor_name (sensors d ! v), map (\<lambda>i. data d ! i ! v) p_inds))
                          [0..<length (sensors d)]\<rparr> \<and>
         profile_id s' = profile_id s + 1 \<and>
         output_nc_files s' = output_nc_files s @ [out_nc_path op fname]"
  using wp
proof (cases rule: write_profile_cases)
  case (staged sm)
  have "fs (wp_start env op fname s) (wp_tmp env fname s) = Some new_file"
    by simp
  from stage_nc_Fall [OF staged(2) this] fin obtain vs where
    vs: "insert_vars d p_inds [0..<length (sensors d)] = Inr vs" and
    t: "fs sm (wp_tmp env fname s) =
          Some (new_file\<lparr>stage := Finalized, profile_id_var := Some (profile_id s), vars := vs\<rparr>)" and
    i: "profile_id sm = profile_id s + 1" and
    ou: "output_nc_files sm = output_nc_files s"
    by auto
  from publish_Fall [OF staged(3) fin] t i ou insert_vars_Inr [OF vs]
  show ?thesis
    by (simp add: new_file_def)
qed simp_all

lemma set_profile_id_simps [simp]:
  "fs (set_profile_id env m s) = fs s"
  "ncalls (set_profile_id env m s) = ncalls s"
  "output_nc_files (set_profile_id env m s) = output_nc_files s"
  "stdout (set_profile_id env m s) = stdout s"
  "log_calls (set_profile_id env m s) = log_calls s"
  "profile_id (set_profile_id env m s) =
     (if start_profile_id env < 1 then py_int m else profile_id s)"
  by (simp_all add: set_profile_id_def)

lemma wp_tmp_set_profile_id [simp]:
  "wp_tmp env fname (set_profile_id env m s) = wp_tmp env fname s"
  by (simp add: wp_tmp_def)

lemma process_profile_cases:
  assumes pp: "process_profile env op d ts iv s = (c, s')"
  obtains
    (empty) "iv = []" "c = Exc IndexError" "s' = s"
  | (nan) "iv \<noteq> []" "nanmean iv = NaN" "c = Cont"
      "s' = logc WARNING ''Profile mean timestamp is Nan'' s"
  | (range) m e where "iv \<noteq> []" "nanmean iv = Fin m" "utcfromtimestamp m = Inl e"
      "c = Exc e" "s' = set_profile_id env m s"
  | (writes) m dt where "iv \<noteq> []" "nanmean iv = Fin m" "utcfromtimestamp m = Inr dt"
      "write_profile env op d (profile_inds ts (hd iv) (last iv)) (profile_filename env d dt)
         (set_profile_id env m s) = (c, s')"
proof (cases "iv = []")
  case True
  with pp have "c = Exc IndexError" "s' = s"
    by (simp_all add: process_profile_def)
  with True show ?thesis by (rule empty)
next
  case ne: False
  show ?thesis
  proof (cases "nanmean iv")
    case NaN
    with pp ne have "c = Cont" "s' = logc WARNING ''Profile mean timestamp is Nan'' s"
      by (simp_all add: process_profile_def)
    with ne NaN show ?thesis by (rule nan)
  next
    case (Fin m)
    show ?thesis
    proof (cases "utcfromtimestamp m")
      case (Inl e)
      with pp ne Fin have "c = Exc e" "s' = set_profile_id env m s"
        by (simp_all add: process_profile_def)
      with ne Fin Inl show ?thesis by (rule range)
    next
      case (Inr dt)
      with pp ne Fin have
        "write_profile env op d (profile_inds ts (hd iv) (last iv)) (profile_filename env d dt)
           (set_profile_id env m s) = (c, s')"
        by (simp add: process_profile_def)
      with ne Fin Inr show ?thesis by (rule writes)
    qed
  qed
qed

lemma profile_inds_set:
  "set (profile_inds ts p0 p1) = {i. i < length ts \<and> fge (ts ! i) p0 \<and> fle (ts ! i) p1}"
  by (auto simp: profile_inds_def)

lemma profile_inds_sorted: "sorted (profile_inds ts p0 p1) \<and> distinct (profile_inds ts p0 p1)"
  by (simp add: profile_inds_def sorted_wrt_filter)

subsection \<open>The rows of a profile\<close>

text \<open>
  Claim C10. The rows of a profile are the rows of the frame whose time \<open>t\<close> satisfies
  \<open>p0 \<le> t \<le> p1\<close>, both ends included, in the order of the frame. When a profile
  is written and finalized, the file at its output path holds, for every sensor, the
  values of exactly these rows. A row whose time is the shared end of one interval and
  start of the next one is a row of both profiles.
\<close>

theorem profile_rows_inclusive:
  "set (profile_inds ts p0 p1) = {i. i < length ts \<and> fge (ts ! i) p0 \<and> fle (ts ! i) p1} \<and>
   sorted (profile_inds ts p0 p1) \<and> distinct (profile_inds ts p0 p1) \<and>
   (process_profile env output_path d ts iv s = (Fall, s') \<and>
    finish_ok (profile_io env (ncalls s)) \<longrightarrow>
      (\<exists>m dt f. nanmean iv = Fin m \<and> utcfromtimestamp m = Inr dt \<and>
         fs s' (out_nc_path output_path (profile_filename env d dt)) = Some f \<and>
         vars f = map (\<lambda>v. (sensor_name (sensors d ! v),
                              map (\<lambda>i. data d ! i ! v) (profile_inds ts (hd iv) (last iv))))
                    [0..<length (sensors d)])) \<and>
   (k < length ts \<and> ts ! k = Fin b \<and> fle (hd iv1) (Fin b) \<and> last iv1 = Fin b \<and>
    hd iv2 = Fin b \<and> fle (Fin b) (last iv2) \<longrightarrow>
      k \<in> set (profile_inds ts (hd iv1) (last iv1)) \<and>
      k \<in> set (profile_inds ts (hd iv2) (last iv2)))"
proof (intro conjI impI)
  show "set (profile_inds ts p0 p1) = {i. i < length ts \<and> fge (ts ! i) p0 \<and> fle (ts ! i) p1}"
    by (rule profile_inds_set)
  show "sorted (profile_inds ts p0 p1)" "distinct (profile_inds ts p0 p1)"
    using profile_inds_sorted by blast+
next
  assume a: "process_profile env output_path d ts iv s = (Fall, s') \<and>
    finish_ok (profile_io env (ncalls s))"
  then have pp: "process_profile env output_path d ts iv s = (Fall, s')" by simp
  from pp show "\<exists>m dt f. nanmean iv = Fin m \<and> utcfromtimestamp m = Inr dt \<and>
         fs s' (out_nc_path output_path (profile_filename env d dt)) = Some f \<and>
         vars f = map (\<lambda>v. (sensor_name (sensors d ! v),
                              map (\<lambda>i. data d ! i ! v) (profile_inds ts (hd iv) (last iv))))
                    [0..<length (sensors d)]"
  proof (cases rule: process_profile_cases)
    case (writes m dt)
    from a have "finish_ok (profile_io env (ncalls (set_profile_id env m s)))"
      by simp
    from write_profile_Fall [OF writes(4) this] writes(2,3) show ?thesis
      by simp
  qed simp_all
next
  assume b: "k < length ts \<and> ts ! k = Fin b \<and> fle (hd iv1) (Fin b) \<and> last iv1 = Fin b \<and>
    hd iv2 = Fin b \<and> fle (Fin b) (last iv2)"
  then have "fge (ts ! k) (hd iv1)" "fle (ts ! k) (last iv1)"
    "fge (ts ! k) (hd iv2)" "fle (ts ! k) (last iv2)"
    by (cases "hd iv1"; cases "last iv2"; simp)+
  with b show "k \<in> set (profile_inds ts (hd iv1) (last iv1))"
    "k \<in> set (profile_inds ts (hd iv2) (last iv2))"
    by (simp_all add: profile_inds_set)
qed

theorem profile_rows_inclusive_witness:
  "process_profile ex_env ''/o'' ex_dba1 [Fin 10, Fin 20, Fin 30] [Fin 10, Fin 20]
     (init_state ex_env) =
     (Fall, snd (process_profile ex_env ''/o'' ex_dba1 [Fin 10, Fin 20, Fin 30] [Fin 10, Fin 20]
        (init_state ex_env))) \<and>
   finish_ok (profile_io ex_env (ncalls (init_state ex_env))) \<and>
   profile_inds [Fin 10, Fin 20, Fin 30] (Fin 10) (Fin 20) = [0, 1] \<and>
   profile_inds [Fin 10, Fin 20, Fin 30] (Fin 20) (Fin 30) = [1, 2] \<and>
   (\<exists>m dt f. nanmean [Fin 10, Fin 20] = Fin m \<and> utcfromtimestamp m = Inr dt \<and>
      fs (snd (process_profile ex_env ''/o'' ex_dba1 [Fin 10, Fin 20, Fin 30] [Fin 10, Fin 20]
                 (init_state ex_env)))
         (out_nc_path ''/o'' (profile_filename ex_env ex_dba1 dt)) = Some f \<and>
      vars f = [(''llat_time'', [Fin 10, Fin 20]), (''llat_depth'', [Fin 1, Fin 2]),
                (''salinity'', [Fin 35, Fin 35]), (''density'', [Fin 1025, Fin 1025])]) \<and>
   1 \<in> set (profile_inds [Fin 10, Fin 20, Fin 30] (hd [Fin 10, Fin 20]) (last [Fin 10, Fin 20])) \<and>
   1 \<in> set (profile_inds [Fin 10, Fin 20, Fin 30] (hd [Fin 20, Fin 30]) (last [Fin 20, Fin 30]))"
proof -
  let ?r = "process_profile ex_env ''/o'' ex_dba1 [Fin 10, Fin 20, Fin 30] [Fin 10, Fin 20]
     (init_state ex_env)"
  have c: "fst ?r = Fall"
    by code_simp
  then have h1: "?r = (Fall, snd ?r)"
    by (metis prod.collapse)
  have h2: "finish_ok (profile_io ex_env (ncalls (init_state ex_env)))"
    by code_simp
  have h3: "profile_inds [Fin 10, Fin 20, Fin 30] (Fin 10) (Fin 20) = [0, 1]"
    "profile_inds [Fin 10, Fin 20, Fin 30] (Fin 20) (Fin 30) = [1, 2]"
    by code_simp+
  have h4: "map (\<lambda>v. (sensor_name (sensors ex_dba1 ! v),
               map (\<lambda>i. data ex_dba1 ! i ! v)
                 (profile_inds [Fin 10, Fin 20, Fin 30] (hd [Fin 10, Fin 20]) (last [Fin 10, Fin 20]))))
             [0..<length (sensors ex_dba1)] =
           [(''llat_time'', [Fin 10, Fin 20]), (''llat_depth'', [Fin 1, Fin 2]),
            (''salinity'', [Fin 35, Fin 35]), (''density'', [Fin 1025, Fin 1025])]"
    by code_simp
  have h5: "(1::nat) < length [Fin 10, Fin 20, Fin 30] \<and> [Fin 10, Fin 20, Fin 30] ! 1 = Fin 20 \<and>
     fle (hd [Fin 10, Fin 20]) (Fin 20) \<and> last [Fin 10, Fin 20] = Fin 20 \<and>
     hd [Fin 20, Fin 30] = Fin 20 \<and> fle (Fin 20) (last [Fin 20, Fin 30])"
    by simp
  note t = profile_rows_inclusive [where ts = "[Fin 10, Fin 20, Fin 30]" and env = ex_env
      and output_path = "''/o''" and d = ex_dba1 and iv = "[Fin 10, Fin 20]"
      and s = "init_state ex_env" and s' = "snd ?r" and k = 1 and b = 20
      and ?iv1.0 = "[Fin 10, Fin 20]" and ?iv2.0 = "[Fin 20, Fin 30]"]
  from t h1 h2 h5 have
    "\<exists>m dt f. nanmean [Fin 10, Fin 20] = Fin m \<and> utcfromtimestamp m = Inr dt \<and>
      fs (snd ?r) (out_nc_path ''/o'' (profile_filename ex_env ex_dba1 dt)) = Some f \<and>
      vars f = map (\<lambda>v. (sensor_name (sensors ex_dba1 ! v),
               map (\<lambda>i. data ex_dba1 ! i ! v)
                 (profile_inds [Fin 10, Fin 20, Fin 30] (hd [Fin 10, Fin 20]) (last [Fin 10, Fin 20]))))
             [0..<length (sensors ex_dba1)]"
    "1 \<in> set (profile_inds [Fin 10, Fin 20, Fin 30] (hd [Fin 10, Fin 20]) (last [Fin 10, Fin 20]))"
    "1 \<in> set (profile_inds [Fin 10, Fin 20, Fin 30] (hd [Fin 20, Fin 30]) (last [Fin 20, Fin 30]))"
    by blast+
  with h1 h2 h3 show ?thesis
    unfolding h4 by blast
qed


subsection \<open>The profile identifier\<close>




subsection \<open>What a run changes outside the staging directory\<close>

lemma stage_nc_Fall_io:
  assumes "stage_nc io d p_inds tmp s = (Fall, s')"
  shows "init_ok io \<and> open_ok io \<and> populate_exn io = None"
  using assms
  by (auto simp: init_open_def populate_def stage_nc_def then_step_eq
        split: if_splits option.splits sum.splits)

lemma file_kept_refl [simp]: "file_kept a a"
  by (cases a) (simp_all add: file_kept_def)

lemma file_kept_trans: "file_kept a b \<Longrightarrow> file_kept b c \<Longrightarrow> file_kept a c"
  by (cases a; cases b; cases c) (auto simp: file_kept_def)

lemma file_kept_finalized: "file_kept a b \<Longrightarrow> finalized a \<Longrightarrow> finalized b"
  by (cases a; cases b) (auto simp: file_kept_def finalized_def)

lemma file_kept_chmod: "file_kept (fs s q) (fs (chmod p m s) q)"
  by (auto simp: chmod_def upd_file_def file_kept_def split: option.splits)

lemma write_profile_change:
  assumes wp: "write_profile env op d p_inds fname s = (c, s')"
    and nu: "\<not> is_under (tmp_dir env) p"
    and ch: "fs s' p \<noteq> fs s p"
  shows "p = out_nc_path op fname \<and> finalized (fs s' p) \<and>
         init_ok (profile_io env (ncalls s)) \<and> open_ok (profile_io env (ncalls s)) \<and>
         populate_exn (profile_io env (ncalls s)) = None \<and>
         finish_ok (profile_io env (ncalls s)) \<and> move_ok (profile_io env (ncalls s))"
proof -
  have ne: "p \<noteq> wp_tmp env fname s"
    using nu tmp_nc_under unfolding wp_tmp_def by metis
  from wp show ?thesis
  proof (cases rule: write_profile_cases)
    case taken
    with ch show ?thesis by simp
  next
    case exists
    with ch ne show ?thesis by (simp add: mkstemp_def)
  next
    case stopped
    from stage_nc_fs [OF stopped(3) ne] ch ne show ?thesis by simp
  next
    case (staged sm)
    have st: "fs (wp_start env op fname s) (wp_tmp env fname s) = Some new_file"
      by simp
    from stage_nc_fs [OF staged(2) ne] ne have smp: "fs sm p = fs s p"
      by simp
    from publish_fs [OF staged(3) ne] smp ch obtain m where
      pub: "p = out_nc_path op fname" "finish_ok (profile_io env (ncalls s))"
        "move_ok (profile_io env (ncalls s))"
        "fs s' p = map_option (\<lambda>f. f\<lparr>file_mode := m\<rparr>) (fs sm (wp_tmp env fname s))"
      by auto
    from stage_nc_Fall [OF staged(2) st] pub(2) obtain vs where
      "fs sm (wp_tmp env fname s) =
         Some (new_file\<lparr>stage := Finalized, profile_id_var := Some (profile_id s), vars := vs\<rparr>)"
      by auto
    with pub(4) have "finalized (fs s' p)"
      by (simp add: finalized_def)
    with pub stage_nc_Fall_io [OF staged(2)] show ?thesis
      by simp
  qed
qed

lemma out_nc_path_name:
  "out_nc_path op (profile_filename env d dt) =
     path_join op (ngdac_name (glider env) dt (filename_extension d))"
  by (simp add: out_nc_path_def profile_filename_def ngdac_name_def)

lemma process_profile_change:
  assumes pp: "process_profile env op d ts iv s = (c, s')"
    and nu: "\<not> is_under (tmp_dir env) p"
    and ch: "fs s' p \<noteq> fs s p"
  shows "finalized (fs s' p) \<and> names_profile env op d iv p"
  using pp
proof (cases rule: process_profile_cases)
  case empty
  with ch show ?thesis by simp
next
  case nan
  with ch show ?thesis by simp
next
  case (range m e)
  with ch show ?thesis by simp
next
  case (writes m dt)
  from ch have "fs s' p \<noteq> fs (set_profile_id env m s) p"
    by simp
  from write_profile_change [OF writes(4) nu this] have
    "p = out_nc_path op (profile_filename env d dt)" "finalized (fs s' p)"
    by blast+
  moreover from this(1) writes(2,3) have "names_profile env op d iv p"
    unfolding names_profile_def out_nc_path_name by simp
  ultimately show ?thesis
    by simp
qed

lemma profiles_loop_change:
  assumes "profiles_loop env op d ts ivs s = (c, s')"
    and "\<not> is_under (tmp_dir env) p"
    and "fs s' p \<noteq> fs s p"
  shows "finalized (fs s' p) \<and> list_ex (\<lambda>iv. names_profile env op d iv p) ivs"
  using assms
proof (induction ivs arbitrary: s)
  case Nil
  then show ?case by simp
next
  case (Cons iv ivs)
  obtain c1 s1 where step: "process_profile env op d ts iv s = (c1, s1)"
    by (cases "process_profile env op d ts iv s")
  show ?case
  proof (cases "\<exists>e. c1 = Exc e")
    case True
    with Cons.prems(1) step have "s' = s1"
      by auto
    with process_profile_change [OF step Cons.prems(2)] Cons.prems(3) show ?thesis
      by simp
  next
    case False
    with Cons.prems(1) step have loop: "profiles_loop env op d ts ivs s1 = (c, s')"
      by (cases c1) auto
    show ?thesis
    proof (cases "fs s' p = fs s1 p")
      case True
      with Cons.prems(3) have "fs s1 p \<noteq> fs s p" by simp
      from process_profile_change [OF step Cons.prems(2) this] True show ?thesis
        by simp
    next
      case False
      from Cons.IH [OF loop Cons.prems(2) False] show ?thesis
        by simp
    qed
  qed
qed

lemma add_derived_extension:
  "add_derived env d ctd a b = Inr d1 \<Longrightarrow> filename_extension d1 = filename_extension d"
  by (auto simp: add_derived_def bind_exn_Inr split: option.splits)

lemma names_profile_cong:
  "filename_extension d1 = filename_extension d \<Longrightarrow>
     names_profile env op d1 iv p = names_profile env op d iv p"
  by (simp add: names_profile_def split: pyfloat.splits sum.splits)

lemma derive_and_write_change:
  assumes dw: "derive_and_write env op f d yo pts s = (c, s')"
    and nu: "\<not> is_under (tmp_dir env) p"
    and ch: "fs s' p \<noteq> fs s p"
  shows "finalized (fs s' p) \<and> list_ex (\<lambda>iv. names_profile env op d iv p) pts"
proof -
  from dw ch have "\<exists>ctd lat lon d1 ts.
      add_derived env d ctd (nanmean lat) (nanmean lon) = Inr d1 \<and>
      fs s' = fs (snd (profiles_loop env op d1 ts pts s))"
    unfolding derive_and_write_def skip_dba_def
    apply (auto simp: then_step_eq split: option.splits sum.splits if_splits)
     apply metis
    apply (metis snd_conv)
    done
  then obtain ctd lat lon d1 ts where
    d1: "add_derived env d ctd (nanmean lat) (nanmean lon) = Inr d1" and
    s': "fs s' = fs (snd (profiles_loop env op d1 ts pts s))"
    by blast
  have loop: "profiles_loop env op d1 ts pts s =
      (fst (profiles_loop env op d1 ts pts s), snd (profiles_loop env op d1 ts pts s))"
    by simp
  from profiles_loop_change [OF loop nu] ch s' have
    "finalized (fs s' p) \<and> list_ex (\<lambda>iv. names_profile env op d1 iv p) pts"
    by simp
  with names_profile_cong [OF add_derived_extension [OF d1]] show ?thesis
    by simp
qed


lemma process_source_change:
  assumes ps: "process_source env op f s = (c, s')"
    and nu: "\<not> is_under (tmp_dir env) p"
    and ch: "fs s' p \<noteq> fs s p"
  shows "finalized (fs s' p) \<and> names_source env op f p"
proof -
  from ps ch have "\<exists>yo pts.
      slice_sensor_data env (create_llat_dba_reader env f) = Some yo \<and>
      find_profiles env yo = Inr pts \<and>
      derive_and_write env op f (create_llat_dba_reader env f) yo pts
        (logc INFO (''Processing dba file: '' @ f) s) = (c, s')"
    unfolding process_source_def
    by (auto split: option.splits sum.splits if_splits)
  then obtain yo pts where
    yo: "slice_sensor_data env (create_llat_dba_reader env f) = Some yo" and
    pts: "find_profiles env yo = Inr pts" and
    dw: "derive_and_write env op f (create_llat_dba_reader env f) yo pts
        (logc INFO (''Processing dba file: '' @ f) s) = (c, s')"
    by blast
  from ch have "fs s' p \<noteq> fs (logc INFO (''Processing dba file: '' @ f) s) p"
    by simp
  from derive_and_write_change [OF dw nu this] yo pts show ?thesis
    by (simp add: names_source_def)
qed

lemma sources_loop_change:
  assumes "sources_loop env op files s = (c, s')"
    and "\<not> is_under (tmp_dir env) p"
    and "fs s' p \<noteq> fs s p"
  shows "finalized (fs s' p) \<and> list_ex (\<lambda>f. names_source env op f p) files"
  using assms
proof (induction files arbitrary: s)
  case Nil
  then show ?case by simp
next
  case (Cons f files)
  obtain c1 s1 where step: "process_source env op f s = (c1, s1)"
    by (cases "process_source env op f s")
  show ?case
  proof (cases "\<exists>e. c1 = Exc e")
    case True
    with Cons.prems(1) step have "s' = s1"
      by auto
    with process_source_change [OF step Cons.prems(2)] Cons.prems(3) show ?thesis
      by simp
  next
    case False
    with Cons.prems(1) step have loop: "sources_loop env op files s1 = (c, s')"
      by (cases c1) auto
    show ?thesis
    proof (cases "fs s' p = fs s1 p")
      case True
      with Cons.prems(3) have "fs s1 p \<noteq> fs s p" by simp
      from process_source_change [OF step Cons.prems(2) this] True show ?thesis
        by simp
    next
      case False
      from Cons.IH [OF loop Cons.prems(2) False] show ?thesis
        by simp
    qed
  qed
qed

lemma print_outputs_kept:
  "print_outputs files s = (c, s') \<Longrightarrow> file_kept (fs s p) (fs s' p)"
proof (induction files arbitrary: s)
  case Nil
  then show ?case by simp
next
  case (Cons f files)
  show ?case
  proof (cases "fs s f = None")
    case True
    with Cons.prems show ?thesis by simp
  next
    case False
    with Cons.prems have
      "print_outputs files ((chmod f 436 s)\<lparr>stdout := stdout s @ [f]\<rparr>) = (c, s')"
      by simp
    from Cons.IH [OF this] have "file_kept (fs (chmod f 436 s) p) (fs s' p)"
      by simp
    with file_kept_chmod [of s p f 436] show ?thesis
      using file_kept_trans by blast
  qed
qed

lemma fs_entry_state [simp]: "fs (entry_state env) = fs0 env"
  by (simp add: entry_state_def init_state_def)

lemma fs_init_state [simp]: "fs (init_state env) = fs0 env"
  by (simp add: init_state_def)

lemma run_batch_fs:
  assumes rb: "run_batch env op s = (r, s')"
    and nu: "\<not> is_under (tmp_dir env) p"
  shows "file_kept (fs s p) (fs s' p) \<or>
         (finalized (fs s' p) \<and> list_ex (\<lambda>f. names_source env op f p) (dba_files env))"
proof -
  define s0 where "s0 = logc DEBUG (''Temporary NetCDF directory: '' @ tmp_dir env) s"
  obtain c1 s1 where loop: "sources_loop env op (dba_files env) s0 = (c1, s1)"
    by (cases "sources_loop env op (dba_files env) s0")
  have l: "fs s1 p = fs s p \<or>
      (finalized (fs s1 p) \<and> list_ex (\<lambda>f. names_source env op f p) (dba_files env))"
    using sources_loop_change [OF loop nu] by (auto simp: s0_def)
  have k: "file_kept (fs s1 p) (fs s' p)"
  proof (cases "(\<exists>e. c1 = Exc e) \<or> \<not> rmtree_ok env")
    case True
    with rb loop have "fs s' = fs s1"
      by (cases c1) (auto simp: run_batch_def s0_def split: if_splits)
    then show ?thesis by simp
  next
    case False
    define s2 where "s2 = rmtree (tmp_dir env)
        (logc DEBUG (''Removing temporary directory: '' @ tmp_dir env) s1)"
    obtain c3 s3 where po: "print_outputs (output_nc_files s1) s2 = (c3, s3)"
      by (cases "print_outputs (output_nc_files s1) s2")
    from False rb loop po have "s' = s3"
      by (cases c1; cases c3) (auto simp: run_batch_def s0_def s2_def split: if_splits)
    moreover have "fs s2 p = fs s1 p"
      using nu by (simp add: s2_def rmtree_def)
    ultimately show ?thesis
      using print_outputs_kept [OF po, of p] by simp
  qed
  from l show ?thesis
  proof
    assume "fs s1 p = fs s p"
    with k show ?thesis by simp
  next
    assume "finalized (fs s1 p) \<and> list_ex (\<lambda>f. names_source env op f p) (dba_files env)"
    with file_kept_finalized [OF k] show ?thesis by simp
  qed
qed

lemma main_fs:
  assumes nu: "\<not> is_under (tmp_dir env) p"
  shows "file_kept (fs0 env p) (fs (snd (main env)) p) \<or>
         (finalized (fs (snd (main env)) p) \<and> names_run env p)"
proof (cases "isdir env (config_path env) \<and> isdir env (resolve_output_path env) \<and>
    dba_files env \<noteq> [] \<and> ctd_valid env \<and> ngdac_valid env \<and> \<not> debug env")
  case True
  then have m: "main env = run_batch env (resolve_output_path env) (entry_state env)"
    by (simp add: main_def)
  have "run_batch env (resolve_output_path env) (entry_state env) = (fst (main env), snd (main env))"
    by (simp add: m)
  from run_batch_fs [OF this nu] show ?thesis
    by (simp add: names_run_def)
next
  case False
  then have "fs (snd (main env)) = fs0 env"
    by (auto simp: main_def)
  then show ?thesis by simp
qed




subsection \<open>The names of the output files\<close>



subsection \<open>Staging and publishing\<close>

text \<open>
  Claim C1. The writer works on the temporary file only: that file lies in the
  staging directory, and writing it changes no other path. A step for one profile
  changes a path outside the staging directory only by moving the temporary file to
  the output path of the profile, and only when \<open>init_nc\<close>, \<open>open_nc\<close>, the population
  and \<open>finish_nc\<close> have all succeeded; the file it leaves there is finalized. So when
  a run ends, with a return code or with an exception, every path outside the staging
  directory holds the file it held before the run (up to its permission bits) or a
  finalized file.
\<close>

theorem staged_then_published:
  "is_under (tmp_dir env) (wp_tmp env fname s) \<and>
   (stage_nc io d p_inds tmp s = (c1, s1) \<and> q \<noteq> tmp \<longrightarrow> fs s1 q = fs s q) \<and>
   (write_profile env output_path d p_inds fname s = (c, s') \<and>
    \<not> is_under (tmp_dir env) p \<and> fs s' p \<noteq> fs s p \<longrightarrow>
      p = out_nc_path output_path fname \<and> finalized (fs s' p) \<and>
      init_ok (profile_io env (ncalls s)) \<and> open_ok (profile_io env (ncalls s)) \<and>
      populate_exn (profile_io env (ncalls s)) = None \<and>
      finish_ok (profile_io env (ncalls s)) \<and> move_ok (profile_io env (ncalls s))) \<and>
   (\<not> is_under (tmp_dir env) p \<longrightarrow>
      file_kept (fs0 env p) (fs (snd (main env)) p) \<or> finalized (fs (snd (main env)) p))"
proof (intro conjI impI)
  show "is_under (tmp_dir env) (wp_tmp env fname s)"
    by (simp add: wp_tmp_def tmp_nc_under)
next
  assume "stage_nc io d p_inds tmp s = (c1, s1) \<and> q \<noteq> tmp"
  then show "fs s1 q = fs s q"
    using stage_nc_fs by blast
next
  assume a: "write_profile env output_path d p_inds fname s = (c, s') \<and>
    \<not> is_under (tmp_dir env) p \<and> fs s' p \<noteq> fs s p"
  with write_profile_change [of env output_path d p_inds fname s c s' p]
  show "p = out_nc_path output_path fname" "finalized (fs s' p)"
    "init_ok (profile_io env (ncalls s))" "open_ok (profile_io env (ncalls s))"
    "populate_exn (profile_io env (ncalls s)) = None"
    "finish_ok (profile_io env (ncalls s))" "move_ok (profile_io env (ncalls s))"
    by blast+
next
  assume "\<not> is_under (tmp_dir env) p"
  from main_fs [OF this]
  show "file_kept (fs0 env p) (fs (snd (main env)) p) \<or> finalized (fs (snd (main env)) p)"
    by blast
qed

theorem staged_then_published_witness:
  "\<not> is_under (tmp_dir ex_env) ''/o/g-19700101T000015Z-sbd-profile.nc'' \<and>
   \<not> file_kept (fs0 ex_env ''/o/g-19700101T000015Z-sbd-profile.nc'')
        (fs (snd (main ex_env)) ''/o/g-19700101T000015Z-sbd-profile.nc'') \<and>
   finalized (fs (snd (main ex_env)) ''/o/g-19700101T000015Z-sbd-profile.nc'') \<and>
   fs (snd (write_profile ex_env ''/o'' ex_dba1 [0, 1] ''n'' (init_state ex_env))) ''/o/n.nc'' \<noteq>
     fs (init_state ex_env) ''/o/n.nc'' \<and>
   ''/o/n.nc'' = out_nc_path ''/o'' ''n'' \<and>
   finalized (fs (snd (write_profile ex_env ''/o'' ex_dba1 [0, 1] ''n'' (init_state ex_env)))
      ''/o/n.nc'') \<and>
   finish_ok (profile_io ex_env (ncalls (init_state ex_env)))"
proof -
  let ?p = "''/o/g-19700101T000015Z-sbd-profile.nc''"
  let ?r = "write_profile ex_env ''/o'' ex_dba1 [0, 1] ''n'' (init_state ex_env)"
  have h1: "\<not> is_under (tmp_dir ex_env) ?p"
    by (simp add: is_under_def ex_env_def)
  have h2: "\<not> file_kept (fs0 ex_env ?p) (fs (snd (main ex_env)) ?p)"
    by code_simp
  have h3: "\<not> is_under (tmp_dir ex_env) ''/o/n.nc''"
    by (simp add: is_under_def ex_env_def)
  have "fs (snd ?r) ''/o/n.nc'' \<noteq> None" "fs (init_state ex_env) ''/o/n.nc'' = None"
    by code_simp+
  then have h4: "fs (snd ?r) ''/o/n.nc'' \<noteq> fs (init_state ex_env) ''/o/n.nc''"
    by simp
  have h5: "?r = (fst ?r, snd ?r)"
    by simp
  note t = staged_then_published [where env = ex_env and output_path = "''/o''" and d = ex_dba1
      and p_inds = "[0, 1]" and fname = "''n''" and s = "init_state ex_env"
      and c = "fst ?r" and s' = "snd ?r"]
  from t [where p = ?p] h1 h2 have a: "finalized (fs (snd (main ex_env)) ?p)"
    by blast
  from t [where p = "''/o/n.nc''"] h3 h4 h5 have
    "''/o/n.nc'' = out_nc_path ''/o'' ''n''" "finalized (fs (snd ?r) ''/o/n.nc'')"
    "finish_ok (profile_io ex_env (ncalls (init_state ex_env)))"
    by blast+
  with h1 h2 h4 a show ?thesis
    by blast
qed

subsection \<open>What a run prints\<close>

text \<open>
  Claim C2 says that a run that returns 0 prints exactly the paths of the files it
  finalized and moved to their permanent paths. Two runs of the model that return 0:
  in the first one \<open>finish_nc\<close> returns None for the only profile, nothing is moved,
  and the path is printed all the same (line 234 is not under the \<open>if\<close> of line 226):
  the file at that path is the one that was there before the run. In the second one
  the file is finalized and moved, the \<open>chmod\<close> of line 229 fails, and the path of the
  file is not printed.
\<close>

theorem stdout_differs_from_artifacts:
  "fst (main ex_env_clobbered) = Returned 0 \<and>
   finish_ok (profile_io ex_env_clobbered 0) = False \<and>
   stdout (snd (main ex_env_clobbered)) = [''/o/g-19700101T000015Z-sbd-profile.nc''] \<and>
   map_option stage (fs (snd (main ex_env_clobbered)) ''/o/g-19700101T000015Z-sbd-profile.nc'') =
     Some Foreign \<and>
   fst (main ex_env_unlisted) = Returned 0 \<and>
   stdout (snd (main ex_env_unlisted)) = [] \<and>
   fs0 ex_env_unlisted ''/o/g-19700101T000015Z-sbd-profile.nc'' = None \<and>
   map_option stage (fs (snd (main ex_env_unlisted)) ''/o/g-19700101T000015Z-sbd-profile.nc'') =
     Some Finalized"
  by code_simp

theorem stdout_differs_from_artifacts_witness:
  "stdout (snd (main ex_env_clobbered)) \<noteq> [] \<and>
   \<not> finalized (fs (snd (main ex_env_clobbered)) ''/o/g-19700101T000015Z-sbd-profile.nc'') \<and>
   finalized (fs (snd (main ex_env_unlisted)) ''/o/g-19700101T000015Z-sbd-profile.nc'') \<and>
   ''/o/g-19700101T000015Z-sbd-profile.nc'' \<notin> set (stdout (snd (main ex_env_unlisted)))"
proof -
  have "finalized x \<longleftrightarrow> map_option stage x = Some Finalized" for x
    by (cases x) (simp_all add: finalized_def)
  with stdout_differs_from_artifacts show ?thesis
    by auto
qed

subsection \<open>A source file for which the segmenter raises\<close>

text \<open>
  Claim C5 says that a source file for which \<open>find_profiles\<close> raises a ValueError is
  skipped and the run goes on. In the model the handler of line 102 raises a TypeError
  itself (line 103 formats the exception with \<open>{:s}\<close>), and the run ends there: the
  second source file, which alone gives one output file, is never read.
\<close>

theorem value_error_aborts_run:
  "find_profiles ex_env_flat (data (create_llat_dba_reader ex_env_flat ''/b'')) = Inl ValueError \<and>
   dba_files ex_env_flat = [''/b'', ''/a''] \<and>
   fst (main ex_env_flat) = Raised TypeError \<and>
   log_calls (snd (main ex_env_flat)) =
     [(DEBUG, ''Temporary NetCDF directory: /t''), (INFO, ''Processing dba file: /b'')] \<and>
   stdout (snd (main ex_env_flat)) = [] \<and>
   fst (main (ex_env_flat\<lparr>dba_files := [''/a'']\<rparr>)) = Returned 0 \<and>
   stdout (snd (main (ex_env_flat\<lparr>dba_files := [''/a'']\<rparr>))) =
     [''/o/g-19700101T000015Z-sbd-profile.nc'']"
  by code_simp

theorem value_error_aborts_run_witness:
  "fst (main ex_env_flat) \<noteq> Returned 0 \<and> fst (main ex_env_flat) \<noteq> Returned 1"
  using value_error_aborts_run by simp

subsection \<open>The exit code\<close>

lemma run_batch_returned:
  "fst (run_batch env op s) = Returned n \<Longrightarrow>
     (n = 1 \<and> \<not> rmtree_ok env) \<or> (n = 0 \<and> rmtree_ok env)"
  unfolding run_batch_def
  by (auto split: prod.splits ctl.splits if_splits)

lemma outcome_cases: "(\<forall>e. r \<noteq> Raised e) \<longleftrightarrow> (\<exists>n. r = Returned n)"
  by (cases r) auto

lemma process_source_missing:
  "fs s f = None \<Longrightarrow>
     process_source env op f s = (Cont, logc ERROR (''Invalid dba file specified: '' @ f) s)"
  by (simp add: process_source_def)

lemma sources_loop_missing:
  "\<forall>f\<in>set files. fs s f = None \<Longrightarrow>
     fst (sources_loop env op files s) = Fall \<and>
     fs (snd (sources_loop env op files s)) = fs s \<and>
     output_nc_files (snd (sources_loop env op files s)) = output_nc_files s"
proof (induction files arbitrary: s)
  case Nil
  then show ?case by simp
next
  case (Cons f files)
  let ?s1 = "logc ERROR (''Invalid dba file specified: '' @ f) s"
  from Cons.prems have "\<forall>g\<in>set files. fs ?s1 g = None"
    by simp
  from Cons.IH [OF this] Cons.prems show ?case
    by (simp add: process_source_missing logc_def)
qed

lemma run_batch_missing:
  assumes "\<forall>f\<in>set (dba_files env). fs s f = None" "output_nc_files s = []"
  shows "fst (run_batch env op s) \<noteq> Raised e"
proof -
  let ?s0 = "logc DEBUG (''Temporary NetCDF directory: '' @ tmp_dir env) s"
  from assms have "\<forall>f\<in>set (dba_files env). fs ?s0 f = None"
    by simp
  from sources_loop_missing [OF this, of env op] assms(2)
  have "fst (sources_loop env op (dba_files env) ?s0) = Fall"
    "output_nc_files (snd (sources_loop env op (dba_files env) ?s0)) = []"
    by (simp_all add: logc_def)
  then show ?thesis
    unfolding run_batch_def
    by (cases "sources_loop env op (dba_files env) ?s0") (auto split: if_splits)
qed

text \<open>
  Claim C3, amended. As long as no uncaught exception ends the run, main returns 1
  exactly when the configuration directory or the output path is no directory, the
  list of dba files is empty, one of the two validations of the sensor definitions
  fails, or (outside the debug mode) removing the staging directory fails; it returns
  0 otherwise, and never another code. A run in which no input path is a file skips
  them all and raises nothing.
\<close>

theorem exit_code:
  "(fst (main env) = Returned 1 \<longleftrightarrow>
      (\<not> isdir env (config_path env) \<or> \<not> isdir env (resolve_output_path env) \<or>
       dba_files env = [] \<or> \<not> ctd_valid env \<or> \<not> ngdac_valid env \<or>
       (\<not> debug env \<and> \<not> rmtree_ok env \<and> (\<forall>e. fst (main env) \<noteq> Raised e)))) \<and>
   (fst (main env) = Returned 0 \<longleftrightarrow>
      (isdir env (config_path env) \<and> isdir env (resolve_output_path env) \<and>
       dba_files env \<noteq> [] \<and> ctd_valid env \<and> ngdac_valid env \<and>
       (debug env \<or> rmtree_ok env) \<and> (\<forall>e. fst (main env) \<noteq> Raised e))) \<and>
   (\<forall>n. fst (main env) = Returned n \<longrightarrow> n = 0 \<or> n = 1) \<and>
   ((\<forall>f\<in>set (dba_files env). fs0 env f = None) \<longrightarrow> (\<forall>e. fst (main env) \<noteq> Raised e))"
proof (cases "isdir env (config_path env) \<and> isdir env (resolve_output_path env) \<and>
    dba_files env \<noteq> [] \<and> ctd_valid env \<and> ngdac_valid env")
  case False
  then have "fst (main env) = Returned 1"
    by (auto simp: main_def)
  with False show ?thesis
    by auto
next
  case valid: True
  show ?thesis
  proof (cases "debug env")
    case True
    with valid have "fst (main env) = Returned 0"
      by (simp add: main_def)
    with valid True show ?thesis
      by auto
  next
    case False
    with valid have m: "main env = run_batch env (resolve_output_path env) (entry_state env)"
      by (simp add: main_def)
    have o: "output_nc_files (entry_state env) = []"
      by (simp add: entry_state_def init_state_def logc_def)
    have miss: "fst (main env) \<noteq> Raised e" if "\<forall>f\<in>set (dba_files env). fs0 env f = None" for e
      unfolding m using run_batch_missing [of env "entry_state env"] that o by simp
    have ret: "(n = 1 \<and> \<not> rmtree_ok env) \<or> (n = 0 \<and> rmtree_ok env)"
      if "fst (main env) = Returned n" for n
      using run_batch_returned [of env "resolve_output_path env" "entry_state env" n] that
      unfolding m by simp
    have c1: "fst (main env) = Returned 1 \<longleftrightarrow>
        \<not> rmtree_ok env \<and> (\<forall>e. fst (main env) \<noteq> Raised e)"
      using ret outcome_cases [of "fst (main env)"] by (metis outcome.distinct(1) zero_neq_one)
    have c0: "fst (main env) = Returned 0 \<longleftrightarrow>
        rmtree_ok env \<and> (\<forall>e. fst (main env) \<noteq> Raised e)"
      using ret outcome_cases [of "fst (main env)"] by (metis outcome.distinct(1) zero_neq_one)
    have c2: "\<forall>n. fst (main env) = Returned n \<longrightarrow> n = 0 \<or> n = 1"
      using ret by blast
    show ?thesis
      using valid False c0 c1 c2 miss by blast
  qed
qed


theorem exit_code_witness:
  "fst (main (ex_env\<lparr>dba_files := [''/x'']\<rparr>)) = Returned 0 \<and>
   fst (main (ex_env\<lparr>dba_files := [''/x''], rmtree_ok := False\<rparr>)) = Returned 1 \<and>
   fst (main (ex_env\<lparr>dba_files := []\<rparr>)) = Returned 1"
proof -
  let ?e0 = "ex_env\<lparr>dba_files := [''/x'']\<rparr>"
  let ?e1 = "ex_env\<lparr>dba_files := [''/x''], rmtree_ok := False\<rparr>"
  let ?e2 = "ex_env\<lparr>dba_files := []\<rparr>"
  have v0: "isdir ?e0 (config_path ?e0)" "isdir ?e0 (resolve_output_path ?e0)"
    "dba_files ?e0 \<noteq> []" "ctd_valid ?e0" "ngdac_valid ?e0" "rmtree_ok ?e0" "\<not> debug ?e0"
    "\<forall>f\<in>set (dba_files ?e0). fs0 ?e0 f = None"
    by (simp_all add: ex_env_def resolve_output_path_def)
  have v1: "isdir ?e1 (config_path ?e1)" "isdir ?e1 (resolve_output_path ?e1)"
    "dba_files ?e1 \<noteq> []" "ctd_valid ?e1" "ngdac_valid ?e1" "\<not> rmtree_ok ?e1" "\<not> debug ?e1"
    "\<forall>f\<in>set (dba_files ?e1). fs0 ?e1 f = None"
    by (simp_all add: ex_env_def resolve_output_path_def)
  have v2: "dba_files ?e2 = []"
    by simp
  from exit_code [of ?e0] v0 have a: "fst (main ?e0) = Returned 0"
    by blast
  from exit_code [of ?e1] v1 have b: "fst (main ?e1) = Returned 1"
    by blast
  from exit_code [of ?e2] v2 have c: "fst (main ?e2) = Returned 1"
    by blast
  from a b c show ?thesis
    by simp
qed

text \<open>
  The claim as it stands fails: it gives the code 0 to every run without one of the
  five conditions. In the first run \<open>finish_nc\<close> returns None and there is no file at the
  output path, and the \<open>chmod\<close> of line 248 raises; in the second one the mean time of
  the profile is no date, and \<open>utcfromtimestamp\<close> raises in line 165.
\<close>

theorem exit_code_counterexample:
  "isdir ex_env_unfinished (config_path ex_env_unfinished) \<and>
   isdir ex_env_unfinished (resolve_output_path ex_env_unfinished) \<and>
   dba_files ex_env_unfinished \<noteq> [] \<and>
   ctd_valid ex_env_unfinished \<and> ngdac_valid ex_env_unfinished \<and>
   rmtree_ok ex_env_unfinished \<and>
   fst (main ex_env_unfinished) = Raised OSError \<and>
   isdir ex_env_far (config_path ex_env_far) \<and>
   isdir ex_env_far (resolve_output_path ex_env_far) \<and>
   dba_files ex_env_far \<noteq> [] \<and>
   ctd_valid ex_env_far \<and> ngdac_valid ex_env_far \<and>
   rmtree_ok ex_env_far \<and>
   fst (main ex_env_far) = Raised ValueError"
  by code_simp

subsection \<open>Profiles that are skipped\<close>













subsection \<open>Permission bits\<close>

lemma stage_nc_mode:
  assumes "stage_nc io d p_inds tmp s = (c, s')" "fs s tmp = Some f" "fs s' tmp = Some g"
  shows "file_mode g = file_mode f"
  using assms
  by (auto simp: step_defs then_step_eq logc_def split: if_splits option.splits sum.splits)

lemma stage_nc_stdout:
  "stage_nc io d p_inds tmp s = (c, s') \<Longrightarrow> stdout s' = stdout s"
  by (auto simp: step_defs then_step_eq logc_def split: if_splits option.splits sum.splits)

lemma publish_stdout:
  "publish io tmp out s = (c, s') \<Longrightarrow> stdout s' = stdout s"
  by (auto simp: step_defs then_step_eq logc_def split: if_splits)

lemma write_profile_stdout:
  assumes "write_profile env op d p_inds fname s = (c, s')"
  shows "stdout s' = stdout s"
  using assms
proof (cases rule: write_profile_cases)
  case taken
  then show ?thesis by simp
next
  case exists
  then show ?thesis by (simp add: mkstemp_def logc_def)
next
  case stopped
  from stage_nc_stdout [OF stopped(3)] show ?thesis by simp
next
  case (staged sm)
  from stage_nc_stdout [OF staged(2)] publish_stdout [OF staged(3)] show ?thesis by simp
qed

lemma process_profile_stdout:
  assumes "process_profile env op d ts iv s = (c, s')"
  shows "stdout s' = stdout s"
  using assms
proof (cases rule: process_profile_cases)
  case (writes m dt)
  from write_profile_stdout [OF writes(4)] show ?thesis by simp
qed (simp_all add: logc_def)

lemma profiles_loop_stdout:
  "profiles_loop env op d ts ivs s = (c, s') \<Longrightarrow> stdout s' = stdout s"
proof (induction ivs arbitrary: s)
  case Nil
  then show ?case by simp
next
  case (Cons iv ivs)
  obtain c1 s1 where step: "process_profile env op d ts iv s = (c1, s1)"
    by (cases "process_profile env op d ts iv s")
  from process_profile_stdout [OF step] have s1: "stdout s1 = stdout s" .
  show ?case
  proof (cases "\<exists>e. c1 = Exc e")
    case True
    with Cons.prems step s1 show ?thesis by auto
  next
    case False
    with Cons.prems step have "profiles_loop env op d ts ivs s1 = (c, s')"
      by (cases c1) auto
    from Cons.IH [OF this] s1 show ?thesis by simp
  qed
qed

lemma derive_and_write_stdout:
  assumes "derive_and_write env op f d yo pts s = (c, s')"
  shows "stdout s' = stdout s"
proof -
  from assms have "stdout s' = stdout s \<or>
      (\<exists>d1 ts. stdout s' = stdout (snd (profiles_loop env op d1 ts pts s)))"
    unfolding derive_and_write_def skip_dba_def
    apply (auto simp: then_step_eq logc_def split: option.splits sum.splits if_splits)
     apply metis
    apply (metis snd_conv)
    done
  then show ?thesis
    using profiles_loop_stdout by (metis prod.collapse)
qed

lemma process_source_stdout:
  assumes "process_source env op f s = (c, s')"
  shows "stdout s' = stdout s"
proof -
  from assms have "stdout s' = stdout s \<or>
      (\<exists>d yo pts. derive_and_write env op f d yo pts
         (logc INFO (''Processing dba file: '' @ f) s) = (c, s'))"
    unfolding process_source_def
    by (auto simp: logc_def split: option.splits sum.splits if_splits)
  then show ?thesis
    using derive_and_write_stdout by (fastforce simp: logc_def)
qed

lemma sources_loop_stdout:
  "sources_loop env op files s = (c, s') \<Longrightarrow> stdout s' = stdout s"
proof (induction files arbitrary: s)
  case Nil
  then show ?case by simp
next
  case (Cons f files)
  obtain c1 s1 where step: "process_source env op f s = (c1, s1)"
    by (cases "process_source env op f s")
  from process_source_stdout [OF step] have s1: "stdout s1 = stdout s" .
  show ?case
  proof (cases "\<exists>e. c1 = Exc e")
    case True
    with Cons.prems step s1 show ?thesis by auto
  next
    case False
    with Cons.prems step have "sources_loop env op files s1 = (c, s')"
      by (cases c1) auto
    from Cons.IH [OF this] s1 show ?thesis by simp
  qed
qed

lemma print_outputs_keeps_mode:
  "print_outputs files s = (c, s') \<Longrightarrow> fs s p = Some f \<Longrightarrow> file_mode f = 436 \<Longrightarrow>
     \<exists>g. fs s' p = Some g \<and> file_mode g = 436"
proof (induction files arbitrary: s f)
  case Nil
  then show ?case by simp
next
  case (Cons q files)
  show ?case
  proof (cases "fs s q = None")
    case True
    with Cons.prems show ?thesis by simp
  next
    case False
    let ?s1 = "(chmod q 436 s)\<lparr>stdout := stdout s @ [q]\<rparr>"
    from False Cons.prems(1) have po: "print_outputs files ?s1 = (c, s')"
      by auto
    from Cons.prems(2,3) obtain f1 where "fs ?s1 p = Some f1" "file_mode f1 = 436"
      by (cases "p = q") (auto simp: chmod_def upd_file_def)
    from Cons.IH [OF po this] show ?thesis .
  qed
qed

lemma print_outputs_modes:
  "print_outputs files s = (c, s') \<Longrightarrow> \<forall>e. c \<noteq> Exc e \<Longrightarrow>
     stdout s' = stdout s @ files \<and>
     (\<forall>p\<in>set files. \<exists>g. fs s' p = Some g \<and> file_mode g = 436)"
proof (induction files arbitrary: s)
  case Nil
  then show ?case by simp
next
  case (Cons q files)
  show ?case
  proof (cases "fs s q = None")
    case True
    with Cons.prems show ?thesis by auto
  next
    case False
    let ?s1 = "(chmod q 436 s)\<lparr>stdout := stdout s @ [q]\<rparr>"
    from False Cons.prems(1) have po: "print_outputs files ?s1 = (c, s')"
      by auto
    from False obtain f1 where f1: "fs ?s1 q = Some f1" "file_mode f1 = 436"
      by (auto simp: chmod_def upd_file_def)
    from print_outputs_keeps_mode [OF po f1] Cons.IH [OF po Cons.prems(2)] show ?thesis
      by simp
  qed
qed

lemma run_batch_stdout:
  assumes rb: "run_batch env op s = (Returned 0, s')" and p: "p \<in> set (stdout s')"
    and e: "stdout s = []"
  shows "\<exists>g. fs s' p = Some g \<and> file_mode g = 436"
proof -
  let ?s0 = "logc DEBUG (''Temporary NetCDF directory: '' @ tmp_dir env) s"
  obtain c1 s1 where loop: "sources_loop env op (dba_files env) ?s0 = (c1, s1)"
    by (cases "sources_loop env op (dba_files env) ?s0")
  let ?s2 = "rmtree (tmp_dir env)
      (logc DEBUG (''Removing temporary directory: '' @ tmp_dir env) s1)"
  obtain c3 s3 where po: "print_outputs (output_nc_files s1) ?s2 = (c3, s3)"
    by (cases "print_outputs (output_nc_files s1) ?s2")
  from rb loop po have s': "s' = s3" and c3: "\<forall>e. c3 \<noteq> Exc e"
    by (cases c1; cases c3; auto simp: run_batch_def split: if_splits)+
  from sources_loop_stdout [OF loop] e have "stdout ?s2 = []"
    by (simp add: rmtree_def logc_def)
  with print_outputs_modes [OF po c3] p s' show ?thesis
    by simp
qed

text \<open>
  Claim C9, amended. The temporary file has the mode 0o600 that \<open>mkstemp\<close> gives it
  (384), and the writer's steps leave the mode alone; the mode 0o755 (493) is set on
  the file at its permanent path, right after the move; and when a run outside the
  debug mode returns 0, every path it printed holds a file of mode 0o664 (436).
\<close>

theorem permission_transition:
  "file_mode new_file = 384 \<and>
   (stage_nc io d p_inds tmp s = (c1, s1) \<and> fs s tmp = Some f \<and> fs s1 tmp = Some g \<longrightarrow>
      file_mode g = file_mode f) \<and>
   (publish io tmp out s = (Fall, s') \<and> finish_ok io \<and> fs s tmp = Some f \<longrightarrow>
      fs s' out = Some (f\<lparr>file_mode := 493\<rparr>)) \<and>
   (fst (main env) = Returned 0 \<and> \<not> debug env \<and> p \<in> set (stdout (snd (main env))) \<longrightarrow>
      (\<exists>h. fs (snd (main env)) p = Some h \<and> file_mode h = 436))"
proof (intro conjI impI)
  show "file_mode new_file = 384"
    by (simp add: new_file_def)
next
  assume "stage_nc io d p_inds tmp s = (c1, s1) \<and> fs s tmp = Some f \<and> fs s1 tmp = Some g"
  then show "file_mode g = file_mode f"
    using stage_nc_mode by blast
next
  assume "publish io tmp out s = (Fall, s') \<and> finish_ok io \<and> fs s tmp = Some f"
  then show "fs s' out = Some (f\<lparr>file_mode := 493\<rparr>)"
    using publish_Fall [of io tmp out s s'] by simp
next
  assume a: "fst (main env) = Returned 0 \<and> \<not> debug env \<and> p \<in> set (stdout (snd (main env)))"
  then have m: "main env = run_batch env (resolve_output_path env) (entry_state env)"
    by (auto simp: main_def split: if_splits)
  with a have rb: "run_batch env (resolve_output_path env) (entry_state env) =
      (Returned 0, snd (main env))"
    by (metis prod.collapse)
  have "stdout (entry_state env) = []"
    by (simp add: entry_state_def init_state_def logc_def)
  from run_batch_stdout [OF rb _ this] a
  show "\<exists>h. fs (snd (main env)) p = Some h \<and> file_mode h = 436"
    by blast
qed


theorem permission_transition_witness:
  "fst (main ex_env) = Returned 0 \<and> \<not> debug ex_env \<and>
   ''/o/g-19700101T000015Z-sbd-profile.nc'' \<in> set (stdout (snd (main ex_env))) \<and>
   (\<exists>h. fs (snd (main ex_env)) ''/o/g-19700101T000015Z-sbd-profile.nc'' = Some h \<and>
      file_mode h = 436) \<and>
   fs (mkstemp ''/t/x.nc'' (init_state ex_env)) ''/t/x.nc'' = Some new_file \<and>
   (\<exists>g. fs (snd (stage_nc ex_io ex_dba1 [0, 1] ''/t/x.nc''
                (mkstemp ''/t/x.nc'' (init_state ex_env)))) ''/t/x.nc'' = Some g \<and>
      file_mode g = file_mode new_file)"
proof -
  let ?p = "''/o/g-19700101T000015Z-sbd-profile.nc''"
  let ?s = "mkstemp ''/t/x.nc'' (init_state ex_env)"
  let ?r = "stage_nc ex_io ex_dba1 [0, 1] ''/t/x.nc'' ?s"
  have h1: "fst (main ex_env) = Returned 0" "\<not> debug ex_env"
    "?p \<in> set (stdout (snd (main ex_env)))"
    by code_simp+
  have h2: "fs ?s ''/t/x.nc'' = Some new_file"
    by (simp add: mkstemp_def)
  have h3: "fs (snd ?r) ''/t/x.nc'' \<noteq> None"
    by code_simp
  then obtain g where g: "fs (snd ?r) ''/t/x.nc'' = Some g"
    by blast
  have h4: "?r = (fst ?r, snd ?r)"
    by simp
  from permission_transition [where env = ex_env and p = ?p] h1
  have a: "\<exists>h. fs (snd (main ex_env)) ?p = Some h \<and> file_mode h = 436"
    by blast
  from permission_transition [where io = ex_io and d = ex_dba1 and p_inds = "[0, 1]"
      and tmp = "''/t/x.nc''" and s = ?s and ?c1.0 = "fst ?r" and ?s1.0 = "snd ?r"
      and f = new_file and g = g] h2 h4 g
  have b: "file_mode g = file_mode new_file"
    by blast
  from h1 a h2 g b show ?thesis
    by blast
qed

text \<open>
  The claim as it stands fails: while the file of a profile is staged, after
  \<open>finish_nc\<close> and before the move, its mode is 0o600 (384) and not 0o755 (493); the
  mode 0o755 is the mode of the file at its permanent path when the step of the
  profile ends.
\<close>

theorem permission_transition_counterexample:
  "fst (stage_nc ex_io ex_dba1 [0, 1] ''/t/x.nc'' (mkstemp ''/t/x.nc'' (init_state ex_env))) = Fall \<and>
   map_option stage
     (fs (snd (stage_nc ex_io ex_dba1 [0, 1] ''/t/x.nc'' (mkstemp ''/t/x.nc'' (init_state ex_env))))
        ''/t/x.nc'') = Some Finalized \<and>
   map_option file_mode
     (fs (snd (stage_nc ex_io ex_dba1 [0, 1] ''/t/x.nc'' (mkstemp ''/t/x.nc'' (init_state ex_env))))
        ''/t/x.nc'') = Some 384 \<and>
   (384 :: nat) \<noteq> 493 \<and>
   map_option file_mode
     (fs (snd (process_profile ex_env ''/o'' ex_dba1 [Fin 10, Fin 20, Fin 30] [Fin 10, Fin 20]
                 (init_state ex_env))) ''/o/g-19700101T000015Z-sbd-profile.nc'') = Some 493"
  by code_simp


end
